theory Spec2Isabelle
  imports Complex_Main "HOL-Library.Word"
begin

unbundle bit_operations_syntax

section \<open>Exceptions\<close>

text \<open>
  Python exceptions raised or caught by the pipeline, as values. Each one carries the
  text that \<open>str(e)\<close> returns. A function that can raise returns \<open>exn + 'a\<close>,
  with \<open>Inl\<close> for the exception.
\<close>

datatype exn =
    ValueError string
  | TypeError string
  | RuntimeError string
  | QuotaExceededError real string
  | ApiTimeoutError string
  | InferenceError string
  | ModelLoadError string
  | OtherError string

fun str_of_exn :: "exn \<Rightarrow> string" where
  "str_of_exn (ValueError m) = m"
| "str_of_exn (TypeError m) = m"
| "str_of_exn (RuntimeError m) = m"
| "str_of_exn (QuotaExceededError r m) = m"
| "str_of_exn (ApiTimeoutError m) = m"
| "str_of_exn (InferenceError m) = m"
| "str_of_exn (ModelLoadError m) = m"
| "str_of_exn (OtherError m) = m"

section \<open>Coordinate and geometry utilities\<close>

text \<open>
  Python floats are modelled as reals: the arithmetic below is exact, without the
  rounding error of IEEE doubles, and without NaN or infinities. \<open>round\<close> on a
  Python float rounds to the nearest integer, a tie going to the even neighbour.
\<close>

definition py_round :: "real \<Rightarrow> int" where
  "py_round x =
     (let f = \<lfloor>x\<rfloor>; d = x - of_int f
      in if d < 1 / 2 then f
         else if 1 / 2 < d then f + 1
         else if even f then f else f + 1)"

text \<open>
  \<open>_box_to_px\<close> of \<open>pipeline.py\<close>. The box is the list of the numbers of
  \<open>box_2d\<close>; a list that does not have four entries raises \<open>ValueError\<close>.
\<close>

definition box_to_px :: "real list \<Rightarrow> int \<Rightarrow> int \<Rightarrow> exn + (int \<times> int \<times> int \<times> int)" where
  "box_to_px box_2d width height =
     (if length box_2d \<noteq> 4
      then Inl (ValueError ''box_2d must be a list of four numbers [y0,x0,y1,x1]'')
      else
        let y0 = box_2d ! 0; x0 = box_2d ! 1; y1 = box_2d ! 2; x1 = box_2d ! 3;
            x0_px = py_round (x0 / 1000 * of_int width);
            x1_px = py_round (x1 / 1000 * of_int width);
            y0_px = py_round (y0 / 1000 * of_int height);
            y1_px = py_round (y1 / 1000 * of_int height);
            x0_px = max 0 (min (width - 1) x0_px);
            x1_px = max 1 (min width x1_px);
            y0_px = max 0 (min (height - 1) y0_px);
            y1_px = max 1 (min height y1_px);
            x1_px = (if x1_px \<le> x0_px then min width (x0_px + 1) else x1_px);
            y1_px = (if y1_px \<le> y0_px then min height (y0_px + 1) else y1_px)
        in Inr (x0_px, y0_px, x1_px, y1_px))"

text \<open>\<open>_normalize_box\<close> of \<open>postprocess.py\<close>: the same body under another name.\<close>

definition normalize_box :: "real list \<Rightarrow> int \<Rightarrow> int \<Rightarrow> exn + (int \<times> int \<times> int \<times> int)" where
  "normalize_box box_2d width height =
     (if length box_2d \<noteq> 4
      then Inl (ValueError ''box_2d must be a list of four numbers [y0,x0,y1,x1]'')
      else
        let y0 = box_2d ! 0; x0 = box_2d ! 1; y1 = box_2d ! 2; x1 = box_2d ! 3;
            x0_px = py_round (x0 / 1000 * of_int width);
            x1_px = py_round (x1 / 1000 * of_int width);
            y0_px = py_round (y0 / 1000 * of_int height);
            y1_px = py_round (y1 / 1000 * of_int height);
            x0_px = max 0 (min (width - 1) x0_px);
            x1_px = max 1 (min width x1_px);
            y0_px = max 0 (min (height - 1) y0_px);
            y1_px = max 1 (min height y1_px);
            x1_px = (if x1_px \<le> x0_px then min width (x0_px + 1) else x1_px);
            y1_px = (if y1_px \<le> y0_px then min height (y0_px + 1) else y1_px)
        in Inr (x0_px, y0_px, x1_px, y1_px))"

text \<open>
  \<open>_map_box_to_full\<close> of \<open>pipeline.py\<close>. The argument \<open>roi_box_2d\<close> is a box in
  thousandths of the crop \<open>roi_bounds\<close>; the result is in thousandths of the full image.
  Unpacking a list that does not have four entries raises \<open>ValueError\<close>, and the final
  divisions raise \<open>ZeroDivisionError\<close> (here \<open>OtherError\<close>) on an empty image.
\<close>

definition map_box_to_full ::
  "real list \<Rightarrow> int \<times> int \<times> int \<times> int \<Rightarrow> int \<times> int \<Rightarrow> exn + real list" where
  "map_box_to_full roi_box_2d roi_bounds full_size =
     (let (left, top_px, right, bottom) = roi_bounds;
          roi_w = max 1 (right - left);
          roi_h = max 1 (bottom - top_px);
          (full_w, full_h) = full_size
      in if length roi_box_2d \<noteq> 4
         then Inl (ValueError ''not enough values to unpack'')
         else
           let y0 = roi_box_2d ! 0; x0 = roi_box_2d ! 1;
               y1 = roi_box_2d ! 2; x1 = roi_box_2d ! 3;
               fx0 = of_int left + (x0 / 1000 * of_int roi_w);
               fx1 = of_int left + (x1 / 1000 * of_int roi_w);
               fy0 = of_int top_px + (y0 / 1000 * of_int roi_h);
               fy1 = of_int top_px + (y1 / 1000 * of_int roi_h);
               fx0 = max 0 (min (of_int full_w) fx0);
               fx1 = max 0 (min (of_int full_w) fx1);
               fy0 = max 0 (min (of_int full_h) fy0);
               fy1 = max 0 (min (of_int full_h) fy1)
           in if full_h = 0 \<or> full_w = 0
              then Inl (OtherError ''float division by zero'')
              else Inr [(fy0 / of_int full_h) * 1000,
                        (fx0 / of_int full_w) * 1000,
                        (fy1 / of_int full_h) * 1000,
                        (fx1 / of_int full_w) * 1000])"

section \<open>Base64 payloads\<close>

text \<open>
  Byte strings are lists of bytes; text strings are lists of 8-bit characters, so the
  model covers Python strings of code points below 256.
\<close>

type_synonym bytes = "8 word list"

text \<open>
  \<open>str.isspace\<close>, which \<open>str.strip\<close> and the regular expression class \<open>\s\<close> use: tab,
  line feed, vertical tab, form feed, carriage return, the separators 28 to 31, space,
  next line (133) and no-break space (160).
\<close>

definition is_space :: "char \<Rightarrow> bool" where
  "is_space c = (let n = (of_char c :: nat)
                 in (9 \<le> n \<and> n \<le> 13) \<or> (28 \<le> n \<and> n \<le> 32) \<or> n = 133 \<or> n = 160)"

definition strip :: "string \<Rightarrow> string" where
  "strip s = rev (dropWhile is_space (rev (dropWhile is_space s)))"

definition startswith :: "string \<Rightarrow> string \<Rightarrow> bool" where
  "startswith s p = (take (length p) s = p)"

text \<open>\<open>s.split(',', 1)[-1]\<close>: what follows the first comma, or all of \<open>s\<close> without one.\<close>

definition after_first_comma :: "string \<Rightarrow> string" where
  "after_first_comma s =
     (if CHR '','' \<in> set s then tl (dropWhile (\<lambda>c. c \<noteq> CHR '','') s) else s)"

text \<open>
  The standard library's base64 codec (RFC 4648, standard alphabet), which the repository
  calls and does not contain. A byte is read as a number: \<open>a div 4\<close> is \<open>a >> 2\<close>,
  \<open>a mod 4 * 16 + b div 16\<close> is \<open>(a & 3) << 4 | b >> 4\<close>, and so on.
\<close>

definition b64_char :: "nat \<Rightarrow> char" where
  "b64_char n =
     (if n < 26 then char_of (65 + n)
      else if n < 52 then char_of (71 + n)
      else if n < 62 then char_of (n - 4)
      else if n = 62 then CHR ''+'' else CHR ''/'')"

definition b64_value :: "char \<Rightarrow> nat option" where
  "b64_value c =
     (let n = (of_char c :: nat)
      in if 65 \<le> n \<and> n \<le> 90 then Some (n - 65)
         else if 97 \<le> n \<and> n \<le> 122 then Some (n - 71)
         else if 48 \<le> n \<and> n \<le> 57 then Some (n + 4)
         else if c = CHR ''+'' then Some 62
         else if c = CHR ''/'' then Some 63
         else None)"

fun b64encode :: "bytes \<Rightarrow> string" where
  "b64encode [] = []"
| "b64encode [a] =
     [b64_char (unat a div 4), b64_char (unat a mod 4 * 16), CHR ''='', CHR ''='']"
| "b64encode [a, b] =
     [b64_char (unat a div 4), b64_char (unat a mod 4 * 16 + unat b div 16),
      b64_char (unat b mod 16 * 4), CHR ''='']"
| "b64encode (a # b # c # rest) =
     [b64_char (unat a div 4), b64_char (unat a mod 4 * 16 + unat b div 16),
      b64_char (unat b mod 16 * 4 + unat c div 64), b64_char (unat c mod 64)]
     @ b64encode rest"

text \<open>
  \<open>binascii.a2b_base64\<close> in its lenient mode, as \<open>base64.b64decode(s, validate=False)\<close>
  runs it: a character outside the alphabet is skipped; a pad character ends the input
  once it completes a group of four; input that ends inside a group is an error
  (\<open>binascii.Error\<close>, a \<open>ValueError\<close>).
\<close>

fun a2b_base64 :: "nat \<Rightarrow> nat \<Rightarrow> nat \<Rightarrow> string \<Rightarrow> bytes \<Rightarrow> exn + bytes" where
  "a2b_base64 quad_pos leftchar pads [] out =
     (if quad_pos \<noteq> 0
      then (if quad_pos = 1
            then Inl (ValueError ''Invalid base64-encoded string: number of data characters cannot be 1 more than a multiple of 4'')
            else Inl (ValueError ''Incorrect padding''))
      else Inr out)"
| "a2b_base64 quad_pos leftchar pads (c # cs) out =
     (if c = CHR ''=''
      then (if quad_pos \<ge> 2 \<and> quad_pos + (pads + 1) \<ge> 4
            then Inr out
            else a2b_base64 quad_pos leftchar (if quad_pos \<ge> 2 then pads + 1 else pads) cs out)
      else (case b64_value c of
              None \<Rightarrow> a2b_base64 quad_pos leftchar pads cs out
            | Some d \<Rightarrow>
                if quad_pos = 0 then a2b_base64 1 d 0 cs out
                else if quad_pos = 1
                then a2b_base64 2 (d mod 16) 0 cs (out @ [of_nat (leftchar * 4 + d div 16)])
                else if quad_pos = 2
                then a2b_base64 3 (d mod 4) 0 cs (out @ [of_nat (leftchar * 16 + d div 4)])
                else a2b_base64 0 0 0 cs (out @ [of_nat (leftchar * 64 + d)])))"

definition b64decode :: "string \<Rightarrow> exn + bytes" where
  "b64decode s =
     (if \<exists>c \<in> set s. (of_char c :: nat) > 127
      then Inl (ValueError ''string argument should contain only ASCII characters'')
      else a2b_base64 0 0 0 s [])"

text \<open>\<open>decode_base64_bytes\<close> of \<open>utils.py\<close>, for an argument that is a string.\<close>

definition decode_base64_bytes :: "string \<Rightarrow> exn + bytes" where
  "decode_base64_bytes data =
     (let cleaned = strip data;
          cleaned = (if startswith cleaned ''data:'' then after_first_comma cleaned
                     else cleaned);
          cleaned = filter (\<lambda>c. \<not> is_space c) cleaned
      in if cleaned = [] then Inl (ValueError ''Empty base64 payload'')
         else
           let padding = length cleaned mod 4;
               cleaned = (if padding \<noteq> 0
                          then cleaned @ replicate (4 - padding) CHR ''=''
                          else cleaned)
           in b64decode cleaned)"

section \<open>Candidates\<close>

text \<open>
  A mask payload as the provider's JSON can hold it: absent, a base64 string, a
  two-dimensional array of numbers, or a wrapper dictionary.
\<close>

datatype mask_payload =
    MaskNone
  | MaskStr string
  | MaskArray "real list list"
  | MaskDict "(string \<times> mask_payload) list"

text \<open>
  What a dictionary holds under one of the optional numeric keys: no such key, the value
  \<open>None\<close>, a number, or a value that \<open>float\<close> rejects.
\<close>

datatype pyfield = Missing | Null | Number real | NonNumber

text \<open>
  A candidate dictionary. The keys \<open>label\<close>, \<open>box_2d\<close> and \<open>mask\<close> are present in
  every candidate (\<open>generate_candidates\<close> drops the others); \<open>box_2d\<close> is a list of
  numbers of any length. \<open>c_local\<close> holds the keys \<open>_local_cutout\<close>, \<open>_processor\<close>,
  \<open>_device\<close> and \<open>_inference_ms\<close> of a candidate made from a local result.
\<close>

record local_keys =
  k_local_cutout :: bytes
  k_processor :: string
  k_device :: string
  k_inference_ms :: int

record candidate =
  c_label :: string
  c_box_2d :: "real list"
  c_mask :: mask_payload
  c_confidence :: pyfield
  c_score :: pyfield
  c_probability :: pyfield
  c_local :: "local_keys option"

record metrics =
  m_confidence :: real
  m_center :: real
  m_area :: real
  m_rectangularity :: real
  m_edge :: real
  m_penalty :: real

text \<open>
  The enriched copy that \<open>_select_candidate\<close> builds: the candidate with the keys
  \<open>score\<close> and \<open>metrics\<close> set.
\<close>

record scored_candidate =
  sc_item :: candidate
  sc_score :: real
  sc_metrics :: metrics

text \<open>
  What the scorer reads of an image: its size, and the mean gradient magnitude
  (\<open>np.mean(np.sqrt(gx * gx + gy * gy))\<close>) of the grayscale crop at a pixel box, which
  depends on the pixels and is left to the image.
\<close>

record image =
  img_width :: int
  img_height :: int
  mean_gradient :: "int \<times> int \<times> int \<times> int \<Rightarrow> real"

section \<open>Candidate scorer\<close>

definition hypot :: "real \<Rightarrow> real \<Rightarrow> real" where
  "hypot a b = sqrt (a * a + b * b)"

definition center_score :: "int \<Rightarrow> int \<Rightarrow> int \<Rightarrow> int \<Rightarrow> int \<Rightarrow> int \<Rightarrow> real" where
  "center_score x0 y0 x1 y1 w h =
     (let cx = of_int (x0 + x1) / 2;
          cy = of_int (y0 + y1) / 2;
          dx = cx - (of_int w / 2);
          dy = cy - (of_int h / 2);
          dist = hypot dx dy;
          max_dist = hypot (of_int w / 2) (of_int h / 2)
      in if max_dist \<le> 0 then 0
         else max 0 (min 1 (1 - (dist / max_dist))))"

definition area_score :: "real \<Rightarrow> real \<Rightarrow> real \<Rightarrow> real" where
  "area_score area_ratio min_ratio max_ratio =
     (if area_ratio \<le> 0 then 0
      else if area_ratio < min_ratio then max 0 (min 1 (area_ratio / min_ratio))
      else if area_ratio > max_ratio
      then max 0 (min 1 (1 - (area_ratio - max_ratio) / max (1 / 1000000) (1 - max_ratio)))
      else 1)"

text \<open>
  \<open>_edge_density\<close>. The crop of a pixel box \<open>(x0, y0, x1, y1)\<close> is an array of
  \<open>y1 - y0\<close> rows and \<open>x1 - x0\<close> columns. \<open>np.gradient\<close> raises \<open>ValueError\<close> when an
  axis of its argument has fewer than two entries.
\<close>

definition clip :: "real \<Rightarrow> real \<Rightarrow> real \<Rightarrow> real" where
  "clip x lo hi = min hi (max lo x)"

definition edge_density :: "image \<Rightarrow> int \<times> int \<times> int \<times> int \<Rightarrow> exn + real" where
  "edge_density img box_px =
     (let (x0, y0, x1, y1) = box_px;
          rows = max 0 (y1 - y0);
          cols = max 0 (x1 - x0)
      in if rows * cols = 0 then Inr 0
         else if rows < 2 \<or> cols < 2
         then Inl (ValueError ''Shape of array too small to calculate a numerical gradient, at least (edge_order + 1) elements are required.'')
         else Inr (clip (mean_gradient img box_px / 255) 0 1))"

text \<open>
  \<open>_rectangularity\<close>. Its first argument stands for the imaging calls inside the
  \<open>try\<close>: the fraction of the pixels of the decoded mask, resized to 128 by 128, that are
  at least 128, or \<open>None\<close> when decoding or opening the mask raises.
\<close>

fun falsy :: "mask_payload \<Rightarrow> bool" where
  "falsy MaskNone = True"
| "falsy (MaskStr s) = (s = [])"
| "falsy (MaskArray a) = (a = [])"
| "falsy (MaskDict d) = (d = [])"

definition rectangularity :: "(mask_payload \<Rightarrow> real option) \<Rightarrow> mask_payload \<Rightarrow> real" where
  "rectangularity fill_of mask_payload =
     (if falsy mask_payload then 1 / 2
      else case fill_of mask_payload of
             None \<Rightarrow> 1 / 2
           | Some fill \<Rightarrow> clip ((fill - 35 / 100) / (65 / 100)) 0 1)"

definition border_touch_penalty ::
  "int \<Rightarrow> int \<Rightarrow> int \<Rightarrow> int \<Rightarrow> int \<Rightarrow> int \<Rightarrow> bool \<Rightarrow> real" where
  "border_touch_penalty x0 y0 x1 y1 w h allow_touch =
     (if allow_touch then 0
      else
        let margin = max 2 \<lfloor>of_int (min w h) * (1 / 100 :: real)\<rfloor>;
            touches = (0::nat);
            touches = (if x0 \<le> margin then touches + 1 else touches);
            touches = (if y0 \<le> margin then touches + 1 else touches);
            touches = (if x1 \<ge> w - margin then touches + 1 else touches);
            touches = (if y1 \<ge> h - margin then touches + 1 else touches)
        in if touches \<ge> 2 then 35 / 100
           else if touches = 1 then 15 / 100
           else 0)"

text \<open>
  The confidence of a candidate: \<open>confidence\<close>, else \<open>score\<close>, else \<open>probability\<close>,
  else 0.5; a value that \<open>float\<close> rejects gives 0.5; the result is clipped to [0, 1].
\<close>

definition candidate_conf :: "candidate \<Rightarrow> real" where
  "candidate_conf c =
     (let conf = (case c_confidence c of Missing \<Rightarrow> Null | v \<Rightarrow> v);
          conf = (if conf = Null
                  then (case c_score c of
                          Missing \<Rightarrow> (case c_probability c of Missing \<Rightarrow> Number (1 / 2) | v \<Rightarrow> v)
                        | v \<Rightarrow> v)
                  else conf);
          conf = (case conf of Number r \<Rightarrow> r | _ \<Rightarrow> 1 / 2)
      in clip conf 0 1)"

definition score_candidate ::
  "(mask_payload \<Rightarrow> real option) \<Rightarrow> candidate \<Rightarrow> image \<Rightarrow> string \<Rightarrow> bool \<Rightarrow> real \<Rightarrow> real
     \<Rightarrow> exn + (real \<times> metrics)" where
  "score_candidate fill_of c img focus_mode allow_border_touch area_min area_max =
     (let w = img_width img; h = img_height img
      in case box_to_px (c_box_2d c) w h of
           Inl e \<Rightarrow> Inl e
         | Inr (x0, y0, x1, y1) \<Rightarrow>
             let box_w = max 1 (x1 - x0);
                 box_h = max 1 (y1 - y0);
                 area_ratio = of_int (box_w * box_h) / max 1 (of_int (w * h));
                 conf = candidate_conf c;
                 center = center_score x0 y0 x1 y1 w h;
                 area = area_score area_ratio area_min area_max;
                 rect = rectangularity fill_of (c_mask c)
             in (case edge_density img (x0, y0, x1, y1) of
                  Inl e \<Rightarrow> Inl e
                | Inr edge \<Rightarrow>
                    let penalty = border_touch_penalty x0 y0 x1 y1 w h allow_border_touch;
                        s = (if focus_mode = ''center''
                             then 6 / 10 * center + 2 / 10 * area + 1 / 10 * conf + 1 / 10 * edge
                             else if focus_mode = ''largest''
                             then 6 / 10 * area + 2 / 10 * center + 1 / 10 * conf + 1 / 10 * rect
                             else if focus_mode = ''detailed''
                             then 6 / 10 * edge + 2 / 10 * center + 1 / 10 * area + 1 / 10 * conf
                             else 3 / 10 * conf + 25 / 100 * center + 2 / 10 * area
                                  + 15 / 100 * rect + 1 / 10 * edge);
                        s = max 0 (min 1 (s - penalty))
                    in Inr (s, \<lparr>m_confidence = conf, m_center = center, m_area = area,
                                m_rectangularity = rect, m_edge = edge, m_penalty = penalty\<rparr>)))"

section \<open>Candidate selector\<close>

definition zero_metrics :: metrics where
  "zero_metrics = \<lparr>m_confidence = 0, m_center = 0, m_area = 0,
                    m_rectangularity = 0, m_edge = 0, m_penalty = 0\<rparr>"

text \<open>
  \<open>max(range(n), key=f)\<close>: the loop behind Python's \<open>max\<close> keeps the first index and
  replaces it only by an index whose key is strictly greater. \<open>argmax_from\<close> is that
  loop, from a current best index over the remaining indices.
\<close>

fun argmax_from :: "(nat \<Rightarrow> real) \<Rightarrow> nat \<Rightarrow> nat list \<Rightarrow> nat" where
  "argmax_from f best [] = best"
| "argmax_from f best (i # rest) = argmax_from f (if f i > f best then i else best) rest"

definition py_max_index :: "(nat \<Rightarrow> real) \<Rightarrow> nat \<Rightarrow> exn + nat" where
  "py_max_index f n =
     (if n = 0 then Inl (ValueError ''max() arg is an empty sequence'')
      else Inr (argmax_from f 0 [1..<n]))"

text \<open>
  The environment variables the selector and the mask cleanup read. A variable is
  unset, set to text that \<open>float\<close> rejects, or set to a number.
\<close>

datatype envval = Unset | Malformed | Parsed real

record environ =
  CANDIDATE_AREA_MIN :: envval
  CANDIDATE_AREA_MAX :: envval
  MASK_HOLE_RATIO :: envval

definition env_float :: "envval \<Rightarrow> real \<Rightarrow> exn + real" where
  "env_float v dflt =
     (case v of Unset \<Rightarrow> Inr dflt
      | Malformed \<Rightarrow> Inl (ValueError ''could not convert string to float'')
      | Parsed r \<Rightarrow> Inr r)"

definition score_or_zero ::
  "(mask_payload \<Rightarrow> real option) \<Rightarrow> image \<Rightarrow> string \<Rightarrow> bool \<Rightarrow> real \<Rightarrow> real \<Rightarrow> candidate
     \<Rightarrow> scored_candidate" where
  "score_or_zero fill_of img focus_mode allow_border_touch area_min area_max c =
     (case score_candidate fill_of c img focus_mode allow_border_touch area_min area_max of
        Inl e \<Rightarrow> \<lparr>sc_item = c, sc_score = 0, sc_metrics = zero_metrics\<rparr>
      | Inr (s, m) \<Rightarrow> \<lparr>sc_item = c, sc_score = s, sc_metrics = m\<rparr>)"

definition select_candidate ::
  "environ \<Rightarrow> (mask_payload \<Rightarrow> real option) \<Rightarrow> candidate list \<Rightarrow> image \<Rightarrow> string \<Rightarrow> bool
     \<Rightarrow> int option \<Rightarrow> exn + (scored_candidate \<times> scored_candidate list \<times> nat)" where
  "select_candidate env fill_of candidates img focus_mode allow_border_touch candidate_index =
     (case env_float (CANDIDATE_AREA_MIN env) (8 / 100) of
        Inl e \<Rightarrow> Inl e
      | Inr area_min \<Rightarrow>
          (case env_float (CANDIDATE_AREA_MAX env) (70 / 100) of
             Inl e \<Rightarrow> Inl e
           | Inr area_max \<Rightarrow>
               (let scored = map (score_or_zero fill_of img focus_mode allow_border_touch
                                    area_min area_max) candidates
                in if candidate_index \<noteq> None \<and> 0 \<le> the candidate_index
                      \<and> the candidate_index < int (length scored)
                   then Inr (scored ! nat (the candidate_index), scored,
                             nat (the candidate_index))
                   else (case py_max_index (\<lambda>i. sc_score (scored ! i)) (length scored) of
                           Inl e \<Rightarrow> Inl e
                         | Inr best_index \<Rightarrow>
                             Inr (scored ! best_index, scored, best_index)))))"

section \<open>Mask post-processor\<close>

text \<open>
  A single-channel raster (\<open>np.uint8\<close> array, or a PIL image of mode \<open>L\<close>): a list of
  rows of bytes. A label image: a list of rows of component numbers.
\<close>

type_synonym raster = "8 word list list"

type_synonym labels = "nat list list"

text \<open>
  The OpenCV calls of \<open>_cleanup_binary_mask\<close>. They are library code and are parameters
  of the model: the morphological close and open with the 3 by 3 elliptic kernel
  (\<open>morph_close_ellipse3\<close> and \<open>morph_open_ellipse3\<close> below are what OpenCV computes for
  them), and \<open>connectedComponentsWithStats\<close> with connectivity 8, which returns the
  number of labels, the label image, and for each label the row
  \<open>(x, y, w, h, area)\<close> of its bounding box and pixel count.
\<close>

record cv2 =
  morph_close :: "raster \<Rightarrow> raster"
  morph_open :: "raster \<Rightarrow> raster"
  connectedComponentsWithStats ::
    "raster \<Rightarrow> nat \<times> labels \<times> (int \<times> int \<times> int \<times> int \<times> int) list"

text \<open>\<open>a[labels == label] = v\<close> as a new array, and \<open>(labels == label).astype(np.uint8)\<close>.\<close>

definition set_where :: "labels \<Rightarrow> nat \<Rightarrow> 8 word \<Rightarrow> raster \<Rightarrow> raster" where
  "set_where labs label v a =
     map2 (\<lambda>lrow arow. map2 (\<lambda>l x. if l = label then v else x) lrow arow) labs a"

definition label_mask :: "labels \<Rightarrow> nat \<Rightarrow> raster" where
  "label_mask labs label = map (map (\<lambda>l. if l = label then 1 else 0)) labs"

definition stat_area :: "int \<times> int \<times> int \<times> int \<times> int \<Rightarrow> int" where
  "stat_area st = (case st of (x, y, w, h, area) \<Rightarrow> area)"

text \<open>The dimensions \<open>a.shape\<close> of a two-dimensional array.\<close>

definition shape :: "'a list list \<Rightarrow> nat \<times> nat" where
  "shape a = (length a, if a = [] then 0 else length (hd a))"

text \<open>
  The loop over the hole labels of \<open>_cleanup_binary_mask\<close>: a hole whose bounding box
  touches the border is skipped; another one is filled when its area is at most the
  threshold.
\<close>

fun fill_holes ::
  "nat list \<Rightarrow> (int \<times> int \<times> int \<times> int \<times> int) list \<Rightarrow> labels \<Rightarrow> int \<Rightarrow> int \<Rightarrow> int
     \<Rightarrow> raster \<Rightarrow> raster" where
  "fill_holes [] hole_stats hole_labels width height hole_thresh cleaned = cleaned"
| "fill_holes (label # rest) hole_stats hole_labels width height hole_thresh cleaned =
     (case hole_stats ! label of (x, y, w, h, area) \<Rightarrow>
        let touches_border = (x = 0 \<or> y = 0 \<or> (x + w) \<ge> width \<or> (y + h) \<ge> height)
        in if touches_border
           then fill_holes rest hole_stats hole_labels width height hole_thresh cleaned
           else if area \<le> hole_thresh
           then fill_holes rest hole_stats hole_labels width height hole_thresh
                  (set_where hole_labels label 1 cleaned)
           else fill_holes rest hole_stats hole_labels width height hole_thresh cleaned)"

text \<open>
  The first half of \<open>_cleanup_binary_mask\<close>: close, open, and keep the largest
  foreground component (\<open>np.argmax\<close> returns the first index of the greatest area).
\<close>

definition largest_component :: "cv2 \<Rightarrow> raster \<Rightarrow> raster" where
  "largest_component cv binary =
     (let cleaned = morph_close cv binary;
          cleaned = morph_open cv cleaned;
          (num_labels, labs, stats) = connectedComponentsWithStats cv cleaned
      in if num_labels > 1
         then let largest = 1 + argmax_from (\<lambda>i. of_int (stat_area (stats ! (i + 1)))) 0
                                  [1..<length stats - 1]
              in label_mask labs largest
         else cleaned)"

definition hole_threshold :: "environ \<Rightarrow> nat \<Rightarrow> nat \<Rightarrow> int" where
  "hole_threshold env height width =
     (let hole_ratio = (case MASK_HOLE_RATIO env of Parsed r \<Rightarrow> r | _ \<Rightarrow> 1 / 100);
          hole_ratio = max (1 / 1000) (min (5 / 100) hole_ratio)
      in max 1 \<lfloor>of_nat (height * width) * hole_ratio\<rfloor>)"

definition cleanup_binary_mask :: "cv2 \<Rightarrow> environ \<Rightarrow> raster \<Rightarrow> raster" where
  "cleanup_binary_mask cv env binary =
     (let cleaned = largest_component cv binary;
          inv = map (map (\<lambda>c. 1 - c)) cleaned;
          (num_holes, hole_labels, hole_stats) = connectedComponentsWithStats cv inv;
          (height, width) = shape inv;
          hole_thresh = hole_threshold env height width
      in fill_holes [1..<num_holes] hole_stats hole_labels (int width) (int height)
           hole_thresh cleaned)"

text \<open>
  What OpenCV computes for the two morphological calls of \<open>_cleanup_binary_mask\<close>. The
  kernel \<open>getStructuringElement(MORPH_ELLIPSE, (3, 3))\<close> is the cross of a pixel and its
  four neighbours. Dilation takes the maximum and erosion the minimum over the cross;
  neighbours outside the raster are left out (the default border value of
  \<open>morphologyEx\<close>). \<open>MORPH_CLOSE\<close> is dilation then erosion, \<open>MORPH_OPEN\<close> erosion then
  dilation.
\<close>

definition cross_values :: "raster \<Rightarrow> nat \<Rightarrow> nat \<Rightarrow> 8 word list" where
  "cross_values a i j =
     [a ! i ! j]
     @ (if 0 < i then [a ! (i - 1) ! j] else [])
     @ (if i + 1 < length a then [a ! (i + 1) ! j] else [])
     @ (if 0 < j then [a ! i ! (j - 1)] else [])
     @ (if j + 1 < length (a ! i) then [a ! i ! (j + 1)] else [])"

definition dilate_cross :: "raster \<Rightarrow> raster" where
  "dilate_cross a =
     map (\<lambda>i. map (\<lambda>j. fold max (cross_values a i j) 0) [0..<length (a ! i)]) [0..<length a]"

definition erode_cross :: "raster \<Rightarrow> raster" where
  "erode_cross a =
     map (\<lambda>i. map (\<lambda>j. fold min (cross_values a i j) 255) [0..<length (a ! i)]) [0..<length a]"

definition morph_close_ellipse3 :: "raster \<Rightarrow> raster" where
  "morph_close_ellipse3 a = erode_cross (dilate_cross a)"

definition morph_open_ellipse3 :: "raster \<Rightarrow> raster" where
  "morph_open_ellipse3 a = dilate_cross (erode_cross a)"

text \<open>
  The imaging calls of \<open>apply_mask\<close>, taken as given: decoding the image (its size, or
  nothing when the format is not recognised) and the mask; the chain resize, paste,
  optional autocontrast and Gaussian blur that produces the smoothed full-size mask;
  the mean gradient magnitude of a raster; and the Gaussian blur of a given radius.
\<close>

record 'img imaging =
  open_image :: "bytes \<Rightarrow> (int \<times> int) option"
  open_mask :: "bytes \<Rightarrow> 'img option"
  smooth_full_mask :: "'img \<Rightarrow> int \<times> int \<Rightarrow> int \<times> int \<Rightarrow> int \<times> int \<Rightarrow> bool \<Rightarrow> raster"
  mean_gradient_of :: "raster \<Rightarrow> real"
  gaussian_blur :: "real \<Rightarrow> raster \<Rightarrow> raster"

text \<open>
  \<open>Image.getbbox\<close>: the bounding box of the non-zero pixels, or \<open>None\<close>; and
  \<open>Image.crop\<close> for a box inside the image.
\<close>

definition getbbox :: "raster \<Rightarrow> (int \<times> int \<times> int \<times> int) option" where
  "getbbox a =
     (let rows = filter (\<lambda>i. \<exists>v \<in> set (a ! i). v \<noteq> 0) [0..<length a];
          cols = filter (\<lambda>j. \<exists>row \<in> set a. j < length row \<and> row ! j \<noteq> 0)
                   [0..<snd (shape a)]
      in if rows = [] then None
         else Some (int (hd cols), int (hd rows), int (last cols) + 1, int (last rows) + 1))"

definition crop :: "raster \<Rightarrow> int \<times> int \<times> int \<times> int \<Rightarrow> raster" where
  "crop a box =
     (case box of (left, top_px, right, bottom) \<Rightarrow>
        map (\<lambda>row. take (nat (right - left)) (drop (nat left) row))
          (take (nat (bottom - top_px)) (drop (nat top_px) a)))"

text \<open>
  The result of \<open>apply_mask\<close>. Of the RGBA cutouts the model keeps the alpha channels,
  which \<open>putalpha\<close> sets to \<open>alpha\<close>; the colour channels are those of the source image.
\<close>

record mask_result =
  r_mask :: raster
  r_alpha :: raster
  r_cutout :: raster
  r_cutout_full :: raster
  r_cutout_alpha :: raster
  r_box_px :: "int list"
  r_size :: "int list"

definition apply_mask ::
  "'img imaging \<Rightarrow> cv2 \<Rightarrow> environ \<Rightarrow> bytes \<Rightarrow> bytes \<Rightarrow> real list \<Rightarrow> int \<Rightarrow> int \<Rightarrow> int
     \<Rightarrow> bool \<Rightarrow> exn + mask_result" where
  "apply_mask lib cv env image_bytes mask_bytes box_2d threshold feather padding auto_enhance =
     (case open_image lib image_bytes of
        None \<Rightarrow> Inl (ValueError ''Unsupported image format'')
      | Some (width, height) \<Rightarrow>
     (case open_mask lib mask_bytes of
        None \<Rightarrow> Inl (ValueError ''Invalid mask image'')
      | Some mask_img \<Rightarrow>
     (case normalize_box box_2d width height of
        Inl e \<Rightarrow> Inl e
      | Inr (x0, y0, x1, y1) \<Rightarrow>
          (let box_w = max 1 (x1 - x0);
               box_h = max 1 (y1 - y0);
               smooth_mask = smooth_full_mask lib mask_img (box_w, box_h) (x0, y0)
                               (width, height) auto_enhance;
               mask_np = smooth_mask;
               threshold = max 0 (min 255 threshold);
               binary = map (map (\<lambda>m. if uint m \<ge> threshold then 1 else 0)) mask_np;
               cleaned = cleanup_binary_mask cv env binary;
               alpha_np = map2 (map2 (\<lambda>c m. if c > 0 then max m (word_of_int threshold) else 0))
                            cleaned mask_np;
               alpha = (if feather > 0
                        then let edge_strength = mean_gradient_of lib mask_np / 255;
                                 adaptive = max 0 (min (25 / 10) (edge_strength * 6))
                             in gaussian_blur lib (of_int feather + adaptive) alpha_np
                        else alpha_np);
               bbox = (case getbbox alpha of None \<Rightarrow> (0, 0, width, height) | Some b \<Rightarrow> b);
               pad = max 0 padding;
               left = max 0 (fst bbox - pad);
               top_px = max 0 (fst (snd bbox) - pad);
               right = min width (fst (snd (snd bbox)) + pad);
               bottom = min height (snd (snd (snd bbox)) + pad)
           in Inr \<lparr>r_mask = smooth_mask, r_alpha = alpha,
                    r_cutout = crop alpha (left, top_px, right, bottom),
                    r_cutout_full = alpha,
                    r_cutout_alpha = crop alpha (left, top_px, right, bottom),
                    r_box_px = [left, top_px, right, bottom],
                    r_size = [width, height]\<rparr>))))"

section \<open>Provider adapter\<close>

definition MAX_RETRIES :: nat where "MAX_RETRIES = 2"

definition BASE_DELAY :: real where "BASE_DELAY = 3"

text \<open>\<open>str.lower\<close> on the letters A to Z, the only ones that matter for the keywords below.\<close>

definition lower_char :: "char \<Rightarrow> char" where
  "lower_char c = (let n = (of_char c :: nat) in if 65 \<le> n \<and> n \<le> 90 then char_of (n + 32) else c)"

text \<open>\<open>p in s\<close> for strings.\<close>

fun contains :: "string \<Rightarrow> string \<Rightarrow> bool" where
  "contains [] p = (p = [])"
| "contains (c # cs) p = (take (length p) (c # cs) = p \<or> contains cs p)"

definition is_quota_error :: "exn \<Rightarrow> bool" where
  "is_quota_error error =
     (let error_str = map lower_char (str_of_exn error)
      in \<exists>keyword \<in> set [''429'', ''quota'', ''rate_limit'', ''resource_exhausted'',
                            ''too many requests'']. contains error_str keyword)"

text \<open>
  \<open>_extract_retry_delay\<close>: the leftmost match of the regular expression
  \<open>retry[_ ]?(?:in|after|delay)[:\s]*([0-9.]+)\<close>, letters in either case, and \<open>float\<close>
  of its group; 60 without a match. \<open>float\<close> accepts a run of digits and dots when it
  holds at most one dot and at least one digit, and raises \<open>ValueError\<close> otherwise.
\<close>

definition is_digit :: "char \<Rightarrow> bool" where
  "is_digit c = (let n = (of_char c :: nat) in 48 \<le> n \<and> n \<le> 57)"

fun strip_prefix_ci :: "string \<Rightarrow> string \<Rightarrow> string option" where
  "strip_prefix_ci [] s = Some s"
| "strip_prefix_ci (p # ps) [] = None"
| "strip_prefix_ci (p # ps) (c # cs) = (if lower_char c = p then strip_prefix_ci ps cs else None)"

definition match_retry_at :: "string \<Rightarrow> string option" where
  "match_retry_at s =
     (case strip_prefix_ci ''retry'' s of
        None \<Rightarrow> None
      | Some r \<Rightarrow>
          (let r = (case r of [] \<Rightarrow> r
                    | c # cs \<Rightarrow> if c = CHR ''_'' \<or> c = CHR '' '' then cs else r);
               word = (case strip_prefix_ci ''in'' r of
                         Some t \<Rightarrow> Some t
                       | None \<Rightarrow> (case strip_prefix_ci ''after'' r of
                                     Some t \<Rightarrow> Some t
                                   | None \<Rightarrow> strip_prefix_ci ''delay'' r))
           in case word of
                None \<Rightarrow> None
              | Some t \<Rightarrow>
                  (let t = dropWhile (\<lambda>c. c = CHR '':'' \<or> is_space c) t;
                       g = takeWhile (\<lambda>c. is_digit c \<or> c = CHR ''.'') t
                   in if g = [] then None else Some g)))"

fun search_retry :: "string \<Rightarrow> string option" where
  "search_retry [] = None"
| "search_retry (c # cs) =
     (case match_retry_at (c # cs) of Some g \<Rightarrow> Some g | None \<Rightarrow> search_retry cs)"

definition decimal :: "string \<Rightarrow> nat" where
  "decimal ds = foldl (\<lambda>a c. 10 * a + (of_char c - 48)) 0 ds"

definition float_of_digits :: "string \<Rightarrow> exn + real" where
  "float_of_digits g =
     (let ip = takeWhile is_digit g; rest = dropWhile is_digit g
      in if rest = [] then Inr (of_nat (decimal ip))
         else let fp = tl rest
              in if (\<forall>c \<in> set fp. is_digit c) \<and> (ip \<noteq> [] \<or> fp \<noteq> [])
                 then Inr (of_nat (decimal ip) + of_nat (decimal fp) / 10 ^ length fp)
                 else Inl (ValueError ''could not convert string to float''))"

definition extract_retry_delay :: "string \<Rightarrow> exn + real" where
  "extract_retry_delay error_msg =
     (case search_retry error_msg of
        Some g \<Rightarrow> float_of_digits g
      | None \<Rightarrow> Inr 60)"

text \<open>The decimal digits of a number, for the message of \<open>QuotaExceededError\<close>.\<close>

function string_of_nat :: "nat \<Rightarrow> string" where
  "string_of_nat n =
     (if n < 10 then [char_of (48 + n)]
      else string_of_nat (n div 10) @ [char_of (48 + n mod 10)])"
  by pat_completeness auto
termination
  by (relation "measure id") auto

declare string_of_nat.simps [simp del]

definition quota_exceeded :: "real \<Rightarrow> exn" where
  "quota_exceeded retry_after =
     QuotaExceededError retry_after
       (''API quota exceeded. Please try again in '' @ string_of_nat (nat \<lfloor>retry_after\<rfloor>)
        @ '' seconds.'')"

text \<open>
  What lies outside the repository: the two Gemini SDK transports, the outcome of their
  \<open>n\<close>-th request; the local RMBG network behind \<open>rmbg.generate_mask\<close>; the image
  preparation of \<open>_prepare_image_for_model\<close>; and the cleaning and parsing of the model
  text in \<open>extract_json\<close>.
\<close>

record rmbg_output =
  o_cutout_bytes :: bytes
  o_mask_bytes :: bytes
  o_label :: "string option"
  o_confidence :: "real option"
  o_device :: "string option"
  o_inference_ms :: "int option"

record raw_dict =
  d_label :: "string option"
  d_box_2d :: "real list option"
  d_mask :: "mask_payload option"
  d_confidence :: pyfield
  d_score :: pyfield
  d_probability :: pyfield

datatype json_item = ItemDict raw_dict | ItemOther

datatype json_data = DataDict raw_dict | DataList "json_item list" | DataOther

record outside =
  genai_new :: "nat \<Rightarrow> bytes \<Rightarrow> exn + string"
  genai_legacy :: "nat \<Rightarrow> bytes \<Rightarrow> exn + string"
  rmbg_generate_mask :: "nat \<Rightarrow> bytes \<Rightarrow> exn + rmbg_output"
  prepare_image_for_model :: "bytes \<Rightarrow> int \<Rightarrow> exn + bytes"
  json_loads :: "string \<Rightarrow> json_data option"

text \<open>The calls made so far: requests per transport, local runs, and the sleeps.\<close>

record calls =
  new_sdk_calls :: nat
  legacy_sdk_calls :: nat
  local_calls :: nat
  slept :: "real list"

definition generate_with_new_sdk ::
  "string option \<Rightarrow> outside \<Rightarrow> calls \<Rightarrow> bytes \<Rightarrow> (exn + string) \<times> calls" where
  "generate_with_new_sdk api_key out st image_bytes =
     (if api_key = None \<or> api_key = Some []
      then (Inl (RuntimeError ''GEMINI_API_KEY not configured''), st)
      else (genai_new out (new_sdk_calls st) image_bytes,
            st\<lparr>new_sdk_calls := Suc (new_sdk_calls st)\<rparr>))"

definition generate_with_legacy_sdk ::
  "string option \<Rightarrow> outside \<Rightarrow> calls \<Rightarrow> bytes \<Rightarrow> (exn + string) \<times> calls" where
  "generate_with_legacy_sdk api_key out st image_bytes =
     (if api_key = None \<or> api_key = Some []
      then (Inl (RuntimeError ''GEMINI_API_KEY not configured''), st)
      else (genai_legacy out (legacy_sdk_calls st) image_bytes,
            st\<lparr>legacy_sdk_calls := Suc (legacy_sdk_calls st)\<rparr>))"

text \<open>
  \<open>_generate_with_retry\<close>: the loop over \<open>range(MAX_RETRIES)\<close>, and after it the two
  statements that raise the last error.
\<close>

fun retry_loop ::
  "string option \<Rightarrow> outside \<Rightarrow> bytes \<Rightarrow> nat list \<Rightarrow> exn option \<Rightarrow> calls
     \<Rightarrow> (exn + string) \<times> calls" where
  "retry_loop api_key out image_bytes [] last_error st =
     (case last_error of
        None \<Rightarrow> (Inl (RuntimeError ''Unknown error during generation''), st)
      | Some e \<Rightarrow>
          if is_quota_error e
          then (case extract_retry_delay (str_of_exn e) of
                  Inl x \<Rightarrow> (Inl x, st)
                | Inr d \<Rightarrow> (Inl (quota_exceeded d), st))
          else (Inl e, st))"
| "retry_loop api_key out image_bytes (attempt # rest) last_error st =
     (case generate_with_new_sdk api_key out st image_bytes of
        (Inr text, st1) \<Rightarrow> (Inr text, st1)
      | (Inl e, st1) \<Rightarrow>
          if is_quota_error e
          then (case extract_retry_delay (str_of_exn e) of
                  Inl x \<Rightarrow> (Inl x, st1)
                | Inr retry_delay \<Rightarrow>
                    if attempt + 1 < MAX_RETRIES
                    then let wait_time = min retry_delay (BASE_DELAY * 2 ^ attempt)
                         in retry_loop api_key out image_bytes rest (Some e)
                              (st1\<lparr>slept := slept st1 @ [wait_time]\<rparr>)
                    else (Inl (quota_exceeded retry_delay), st1))
          else (case generate_with_legacy_sdk api_key out st1 image_bytes of
                  (Inr text, st2) \<Rightarrow> (Inr text, st2)
                | (Inl legacy_error, st2) \<Rightarrow>
                    if is_quota_error legacy_error
                    then (case extract_retry_delay (str_of_exn legacy_error) of
                            Inl x \<Rightarrow> (Inl x, st2)
                          | Inr d \<Rightarrow> (Inl (quota_exceeded d), st2))
                    else (Inl legacy_error, st2)))"

definition generate_with_retry ::
  "string option \<Rightarrow> outside \<Rightarrow> calls \<Rightarrow> bytes \<Rightarrow> (exn + string) \<times> calls" where
  "generate_with_retry api_key out st image_bytes =
     retry_loop api_key out image_bytes [0..<MAX_RETRIES] None st"

definition extract_json :: "(string \<Rightarrow> json_data option) \<Rightarrow> string \<Rightarrow> exn + json_data" where
  "extract_json loads text =
     (if text = [] then Inl (ValueError ''Empty response from model'')
      else case loads text of
             Some parsed \<Rightarrow> Inr parsed
           | None \<Rightarrow> Inl (ValueError ''Invalid JSON format from model''))"

definition to_candidate :: "json_item \<Rightarrow> candidate option" where
  "to_candidate it =
     (case it of
        ItemOther \<Rightarrow> None
      | ItemDict d \<Rightarrow>
          if d_label d \<noteq> None \<and> d_box_2d d \<noteq> None \<and> d_mask d \<noteq> None
          then Some \<lparr>c_label = the (d_label d), c_box_2d = the (d_box_2d d),
                     c_mask = the (d_mask d), c_confidence = d_confidence d,
                     c_score = d_score d, c_probability = d_probability d, c_local = None\<rparr>
          else None)"

definition generate_candidates ::
  "string option \<Rightarrow> outside \<Rightarrow> calls \<Rightarrow> bytes \<Rightarrow> (exn + candidate list) \<times> calls" where
  "generate_candidates api_key out st image_bytes =
     (case generate_with_retry api_key out st image_bytes of
        (Inl e, st1) \<Rightarrow> (Inl e, st1)
      | (Inr text, st1) \<Rightarrow>
          (case extract_json (json_loads out) text of
             Inl e \<Rightarrow> (Inl e, st1)
           | Inr data \<Rightarrow>
               (let data = (case data of DataDict d \<Rightarrow> DataList [ItemDict d] | _ \<Rightarrow> data)
                in case data of
                     DataList items \<Rightarrow>
                       if items = []
                       then (Inl (ValueError ''Unexpected JSON format from model''), st1)
                       else let candidates = List.map_filter to_candidate items
                            in if candidates = []
                               then (Inl (ValueError ''Model returned empty list''), st1)
                               else (Inr candidates, st1)
                   | _ \<Rightarrow> (Inl (ValueError ''Unexpected JSON format from model''), st1))))"

section \<open>Provider fallback\<close>

definition generate_candidates_with_retry ::
  "string option \<Rightarrow> outside \<Rightarrow> calls \<Rightarrow> bytes \<Rightarrow> int \<Rightarrow> (exn + candidate list) \<times> calls" where
  "generate_candidates_with_retry api_key out st image_bytes max_edge =
     (case prepare_image_for_model out image_bytes max_edge of
        Inl e \<Rightarrow> (Inl e, st)
      | Inr model_image_bytes \<Rightarrow>
          (case generate_candidates api_key out st model_image_bytes of
             (Inr cs, st1) \<Rightarrow> (Inr cs, st1)
           | (Inl exc, st1) \<Rightarrow>
               (case exc of
                  ValueError msg \<Rightarrow>
                    if contains msg ''Invalid JSON format'' \<and> max_edge > 1024
                    then (case prepare_image_for_model out image_bytes 1024 of
                            Inl e \<Rightarrow> (Inl e, st1)
                          | Inr smaller_bytes \<Rightarrow>
                              generate_candidates api_key out st1 smaller_bytes)
                    else (Inl exc, st1)
                | _ \<Rightarrow> (Inl exc, st1))))"

record local_result =
  l_cutout_bytes :: bytes
  l_mask_bytes :: bytes
  l_label :: string
  l_box_2d :: "real list"
  l_confidence :: real
  l_processor :: string
  l_device :: string
  l_inference_ms :: int

text \<open>
  \<open>_run_local_segmentation\<close>. After \<open>generate_mask\<close> has returned, the source opens
  \<open>image_bytes\<close> once more with \<open>Image.open\<close> to read a size that it does not use.
  \<open>generate_mask\<close> has opened the same bytes itself and reports every failure as
  \<open>InferenceError\<close>, so this second opening is taken to succeed and is left out.
\<close>

definition run_local_segmentation ::
  "outside \<Rightarrow> calls \<Rightarrow> bytes \<Rightarrow> (exn + local_result) \<times> calls" where
  "run_local_segmentation out st image_bytes =
     (let st1 = st\<lparr>local_calls := Suc (local_calls st)\<rparr>
      in case rmbg_generate_mask out (local_calls st) image_bytes of
           Inr md \<Rightarrow>
             (Inr \<lparr>l_cutout_bytes = o_cutout_bytes md,
                   l_mask_bytes = o_mask_bytes md,
                   l_label = (case o_label md of None \<Rightarrow> ''product'' | Some l \<Rightarrow> l),
                   l_box_2d = [0, 0, 1000, 1000],
                   l_confidence = (case o_confidence md of None \<Rightarrow> 95 / 100 | Some c \<Rightarrow> c),
                   l_processor = ''rmbg-local'',
                   l_device = (case o_device md of None \<Rightarrow> ''cpu'' | Some d \<Rightarrow> d),
                   l_inference_ms = (case o_inference_ms md of None \<Rightarrow> 0 | Some t \<Rightarrow> t)\<rparr>,
              st1)
         | Inl e \<Rightarrow>
             (case e of
                InferenceError m \<Rightarrow> (Inl (ValueError (''Local processing failed: '' @ m)), st1)
              | ModelLoadError m \<Rightarrow> (Inl (ValueError (''Local processing failed: '' @ m)), st1)
              | _ \<Rightarrow> (Inl e, st1)))"

definition local_candidate :: "local_result \<Rightarrow> candidate" where
  "local_candidate local_result =
     \<lparr>c_label = l_label local_result,
      c_box_2d = l_box_2d local_result,
      c_mask = MaskStr (b64encode (l_mask_bytes local_result)),
      c_confidence = Number (l_confidence local_result),
      c_score = Missing, c_probability = Missing,
      c_local = Some \<lparr>k_local_cutout = l_cutout_bytes local_result,
                       k_processor = ''rmbg-local'',
                       k_device = l_device local_result,
                       k_inference_ms = l_inference_ms local_result\<rparr>\<rparr>"

definition generate_with_fallback ::
  "string option \<Rightarrow> outside \<Rightarrow> calls \<Rightarrow> bytes \<Rightarrow> int \<Rightarrow> string
     \<Rightarrow> (exn + candidate list \<times> string) \<times> calls" where
  "generate_with_fallback api_key out st image_bytes max_edge processing_mode =
     (if processing_mode = ''local''
      then (case run_local_segmentation out st image_bytes of
              (Inr local_result, st1) \<Rightarrow>
                (Inr ([local_candidate local_result], ''rmbg-local''), st1)
            | (Inl e, st1) \<Rightarrow>
                (Inl (ValueError (''Local processing failed: '' @ str_of_exn e)), st1))
      else if processing_mode = ''gemini''
      then (case generate_candidates_with_retry api_key out st image_bytes max_edge of
              (Inr cs, st1) \<Rightarrow> (Inr (cs, ''gemini''), st1)
            | (Inl e, st1) \<Rightarrow> (Inl e, st1))
      else (case generate_candidates_with_retry api_key out st image_bytes max_edge of
              (Inr cs, st1) \<Rightarrow> (Inr (cs, ''gemini''), st1)
            | (Inl e, st1) \<Rightarrow>
                (let fallback = (\<lambda>error_type.
                       case run_local_segmentation out st1 image_bytes of
                         (Inr local_result, st2) \<Rightarrow>
                           (Inr ([local_candidate local_result], ''rmbg-local''), st2)
                       | (Inl local_e, st2) \<Rightarrow>
                           (Inl (ValueError
                              (''Both Gemini and local processing failed. Gemini: ''
                               @ error_type @ '', Local: '' @ str_of_exn local_e)), st2))
                 in case e of
                      QuotaExceededError r m \<Rightarrow> fallback ''quota exceeded''
                    | ApiTimeoutError m \<Rightarrow> fallback ''timeout''
                    | _ \<Rightarrow> (Inl e, st1))))"

section \<open>ROI refinement\<close>

text \<open>
  The second pass of \<open>run_segmentation\<close>: the three variables \<open>roi_mask_payload\<close>,
  \<open>roi_label\<close> and \<open>roi_box_2d\<close> start at the values of the first-pass selection; the
  \<open>try\<close> block asks the provider for candidates of the prepared crop, selects one with
  border touch allowed, and assigns the three variables in turn; the \<open>except\<close> clause
  assigns \<open>roi_box_2d\<close> alone. The result is the value of the three variables after the
  statement. \<open>roi_image\<close> and \<open>roi_bytes\<close> are the crop after background suppression,
  as the scorer reads it and as PNG bytes.
\<close>

definition roi_refine ::
  "environ \<Rightarrow> string option \<Rightarrow> outside \<Rightarrow> (mask_payload \<Rightarrow> real option) \<Rightarrow> calls
     \<Rightarrow> scored_candidate \<Rightarrow> image \<Rightarrow> bytes \<Rightarrow> int \<times> int \<times> int \<times> int \<Rightarrow> int \<times> int
     \<Rightarrow> string \<Rightarrow> int \<Rightarrow> (mask_payload \<times> string \<times> real list) \<times> calls" where
  "roi_refine env api_key out fill_of st selected roi_image roi_bytes roi_bounds full_size
     focus_mode roi_max_edge =
     (let roi_mask_payload = c_mask (sc_item selected);
          roi_label = c_label (sc_item selected);
          roi_box_2d = c_box_2d (sc_item selected)
      in case generate_candidates_with_retry api_key out st roi_bytes roi_max_edge of
           (Inl e, st1) \<Rightarrow> ((roi_mask_payload, roi_label, c_box_2d (sc_item selected)), st1)
         | (Inr roi_candidates, st1) \<Rightarrow>
             (case select_candidate env fill_of roi_candidates roi_image focus_mode True None of
                Inl e \<Rightarrow> ((roi_mask_payload, roi_label, c_box_2d (sc_item selected)), st1)
              | Inr (roi_selected, scored, best) \<Rightarrow>
                  (let roi_mask_payload = c_mask (sc_item roi_selected);
                       roi_label = c_label (sc_item roi_selected)
                   in case map_box_to_full (c_box_2d (sc_item roi_selected)) roi_bounds
                             full_size of
                        Inl e \<Rightarrow>
                          ((roi_mask_payload, roi_label, c_box_2d (sc_item selected)), st1)
                      | Inr roi_box_2d \<Rightarrow> ((roi_mask_payload, roi_label, roi_box_2d), st1))))"

section \<open>Properties of the geometry utilities\<close>

lemma py_round_nearest: "\<bar>of_int (py_round x) - x\<bar> \<le> 1 / 2"
  unfolding py_round_def Let_def by (auto; linarith)

lemma normalize_box_eq: "normalize_box b w h = box_to_px b w h"
  by (simp add: normalize_box_def box_to_px_def)



lemma py_round_of_int: "py_round (of_int n) = n"
  by (simp add: py_round_def)

lemma py_round_numeral: "py_round (numeral k) = numeral k" "py_round 0 = 0" "py_round 1 = 1"
  using py_round_of_int [of "numeral k"] py_round_of_int [of 0] py_round_of_int [of 1] by simp_all








section \<open>Properties of the scorer\<close>

lemma box_to_px_len4:
  assumes "length box = 4"
  shows "box_to_px box w h =
    Inr (max 0 (min (w - 1) (py_round (box ! 1 / 1000 * of_int w))),
         max 0 (min (h - 1) (py_round (box ! 0 / 1000 * of_int h))),
         (if max 1 (min w (py_round (box ! 3 / 1000 * of_int w)))
               \<le> max 0 (min (w - 1) (py_round (box ! 1 / 1000 * of_int w)))
          then min w (max 0 (min (w - 1) (py_round (box ! 1 / 1000 * of_int w))) + 1)
          else max 1 (min w (py_round (box ! 3 / 1000 * of_int w)))),
         (if max 1 (min h (py_round (box ! 2 / 1000 * of_int h)))
               \<le> max 0 (min (h - 1) (py_round (box ! 0 / 1000 * of_int h)))
          then min h (max 0 (min (h - 1) (py_round (box ! 0 / 1000 * of_int h))) + 1)
          else max 1 (min h (py_round (box ! 2 / 1000 * of_int h)))))"
  using assms by (simp add: box_to_px_def Let_def)




















section \<open>The round trip through pixel coordinates\<close>

lemma coord_pair:
  fixes p q :: real and r0 r1 w :: int
  assumes "1 \<le> w" "0 \<le> p" "p < q" "q \<le> of_int w"
    and "\<bar>of_int r0 - p\<bar> \<le> 1 / 2" "\<bar>of_int r1 - q\<bar> \<le> 1 / 2"
  defines "a \<equiv> max 0 (min (w - 1) r0)"
  defines "c \<equiv> max 1 (min w r1)"
  defines "b \<equiv> (if c \<le> a then min w (a + 1) else c)"
  shows "\<bar>of_int a - p\<bar> \<le> 1" and "\<bar>of_int b - q\<bar> \<le> 3 / 2"
    and "0 \<le> a" and "a \<le> w" and "0 \<le> b" and "b \<le> w"
proof -
  have r0: "0 \<le> r0" "r0 \<le> w" using assms(2,3,4,5) by linarith+
  have r1: "0 \<le> r1" "r1 \<le> w" using assms(2,3,4,6) by linarith+
  show "\<bar>of_int a - p\<bar> \<le> 1" using r0 assms(1-6) unfolding a_def max_def min_def
    by (simp split: if_splits; linarith)
  have a_le: "a \<le> r0" "a \<le> w - 1" "0 \<le> a" using r0 assms(1) unfolding a_def by auto
  have c_ge: "r1 \<le> c" "1 \<le> c" "c = r1 \<or> (c = 1 \<and> r1 = 0)"
    using r1 assms(1) unfolding c_def by auto
  show "\<bar>of_int b - q\<bar> \<le> 3 / 2"
  proof (cases "c \<le> a")
    case True
    then have b: "b = a + 1" using a_le(2) by (simp add: b_def)
    have "real_of_int a \<le> real_of_int r0" using a_le(1) by simp
    moreover have "real_of_int r1 \<le> real_of_int a" using True c_ge(1) by simp
    moreover have "real_of_int (a + 1) = real_of_int a + 1" by simp
    ultimately show ?thesis using assms(3,5,6) unfolding b by linarith
  next
    case False
    then have b: "b = c" by (simp add: b_def)
    from c_ge(3) show ?thesis
    proof
      assume "c = r1" then show ?thesis using assms(6) unfolding b by simp
    next
      assume "c = 1 \<and> r1 = 0"
      then show ?thesis using assms(2,3,6) unfolding b by simp
    qed
  qed
  show "0 \<le> a" "a \<le> w" "0 \<le> b" "b \<le> w"
    using assms(1) unfolding a_def b_def c_def by auto
qed


lemma scale_back:
  fixes X w :: int and x k :: real
  assumes "1 \<le> w" "\<bar>of_int X - x / 1000 * of_int w\<bar> \<le> k"
  shows "\<bar>of_int X * 1000 / of_int w - x\<bar> \<le> k * 1000 / of_int w"
proof -
  have w: "0 < real_of_int w" using assms(1) by simp
  have "of_int X * 1000 / of_int w - x = (of_int X - x / 1000 * of_int w) * (1000 / of_int w)"
    using w by (simp add: field_simps)
  then have "\<bar>of_int X * 1000 / of_int w - x\<bar>
               = \<bar>(of_int X - x / 1000 * of_int w) * (1000 / of_int w)\<bar>"
    by (simp only:)
  also have "\<dots> = \<bar>of_int X - x / 1000 * of_int w\<bar> * \<bar>1000 / of_int w\<bar>"
    by (rule abs_mult)
  also have "\<bar>1000 / real_of_int w\<bar> = 1000 / of_int w"
    using w by simp
  finally have "\<bar>of_int X * 1000 / of_int w - x\<bar>
               = \<bar>of_int X - x / 1000 * of_int w\<bar> * (1000 / of_int w)" .
  also have "\<dots> \<le> k * (1000 / of_int w)"
    using assms(2) w by (intro mult_right_mono) simp_all
  finally show ?thesis by simp
qed

lemma map_box_to_full_identity:
  fixes X0 Y0 X1 Y1 w h :: int
  assumes "1 \<le> w" "1 \<le> h" "0 \<le> X0" "X0 \<le> w" "0 \<le> X1" "X1 \<le> w"
    "0 \<le> Y0" "Y0 \<le> h" "0 \<le> Y1" "Y1 \<le> h"
  shows "map_box_to_full [of_int Y0 * 1000 / of_int h, of_int X0 * 1000 / of_int w,
                          of_int Y1 * 1000 / of_int h, of_int X1 * 1000 / of_int w]
           (0, 0, w, h) (w, h)
         = Inr [of_int Y0 * 1000 / of_int h, of_int X0 * 1000 / of_int w,
                of_int Y1 * 1000 / of_int h, of_int X1 * 1000 / of_int w]"
proof -
  have w: "max 1 (w - 0) = w" "w \<noteq> 0" "real_of_int w \<noteq> 0" using assms(1) by simp_all
  have h: "max 1 (h - 0) = h" "h \<noteq> 0" "real_of_int h \<noteq> 0" using assms(2) by simp_all
  have id: "max 0 (min (real_of_int d) (real_of_int 0 + (real_of_int X * 1000 / real_of_int d / 1000 * real_of_int d)))
             = real_of_int X" if "0 \<le> X" "X \<le> d" "1 \<le> d" for X d :: int
  proof -
    have "real_of_int X * 1000 / real_of_int d / 1000 * real_of_int d = real_of_int X"
      using that(3) by simp
    then show ?thesis using that(1,2) by simp
  qed
  show ?thesis
    unfolding map_box_to_full_def Let_def prod.case w h
    using w(2,3) h(2,3)
      id [OF assms(3,4,1)] id [OF assms(5,6,1)] id [OF assms(7,8,2)] id [OF assms(9,10,2)]
    by simp
qed

text \<open>
  Claim C8, amended. Take a normalized box \<open>[y0, x0, y1, x1]\<close> with all coordinates in
  \<open>[0, 1000]\<close>, \<open>x0 < x1\<close> and \<open>y0 < y1\<close>, and an image at least one pixel wide
  and high. Convert it to pixels with \<open>_box_to_px\<close>, write the pixel box in thousandths
  of the crop (\<open>px * 1000 / dimension\<close>, the unit in which \<open>_map_box_to_full\<close> reads
  its argument), and map it back with the crop bounds equal to the whole image. The
  result differs from the original by at most \<open>1500 / width\<close> in the x coordinates and
  \<open>1500 / height\<close> in the y coordinates, that is by one pixel and a half: half a pixel
  of rounding, and up to one pixel of clamping or of repair of a degenerate box. The
  difference is at most one unit when both dimensions are at least 1500.
\<close>

theorem C8_round_trip_pixel_tolerance:
  assumes dims: "1 \<le> w" "1 \<le> h"
    and range: "0 \<le> y0" "y0 \<le> 1000" "0 \<le> x0" "x0 \<le> 1000"
               "0 \<le> y1" "y1 \<le> 1000" "0 \<le> x1" "x1 \<le> 1000"
    and order: "x0 < x1" "y0 < y1"
  shows "\<exists>X0 Y0 X1 Y1 a b c d.
           box_to_px [y0, x0, y1, x1] w h = Inr (X0, Y0, X1, Y1) \<and>
           map_box_to_full [of_int Y0 * 1000 / of_int h, of_int X0 * 1000 / of_int w,
                            of_int Y1 * 1000 / of_int h, of_int X1 * 1000 / of_int w]
             (0, 0, w, h) (w, h) = Inr [a, b, c, d] \<and>
           \<bar>a - y0\<bar> \<le> 1500 / of_int h \<and> \<bar>b - x0\<bar> \<le> 1500 / of_int w \<and>
           \<bar>c - y1\<bar> \<le> 1500 / of_int h \<and> \<bar>d - x1\<bar> \<le> 1500 / of_int w"
proof -
  let ?px = "x0 / 1000 * of_int w" and ?qx = "x1 / 1000 * of_int w"
  let ?py = "y0 / 1000 * of_int h" and ?qy = "y1 / 1000 * of_int h"
  define X0 where "X0 = max 0 (min (w - 1) (py_round ?px))"
  define X1 where "X1 = (if max 1 (min w (py_round ?qx)) \<le> X0 then min w (X0 + 1)
                         else max 1 (min w (py_round ?qx)))"
  define Y0 where "Y0 = max 0 (min (h - 1) (py_round ?py))"
  define Y1 where "Y1 = (if max 1 (min h (py_round ?qy)) \<le> Y0 then min h (Y0 + 1)
                         else max 1 (min h (py_round ?qy)))"
  have rw: "0 < real_of_int w" and rh: "0 < real_of_int h" using dims by simp_all
  have px: "0 \<le> ?px" "?px < ?qx" "?qx \<le> of_int w"
    using range order rw by (simp_all add: field_simps)
  have py: "0 \<le> ?py" "?py < ?qy" "?qy \<le> of_int h"
    using range order rh by (simp_all add: field_simps)
  note cx = coord_pair [OF dims(1) px py_round_nearest py_round_nearest, folded X0_def, folded X1_def]
  note cy = coord_pair [OF dims(2) py py_round_nearest py_round_nearest, folded Y0_def, folded Y1_def]
  have run: "box_to_px [y0, x0, y1, x1] w h = Inr (X0, Y0, X1, Y1)"
    unfolding X0_def X1_def Y0_def Y1_def by (simp add: box_to_px_len4)
  have inv: "map_box_to_full [of_int Y0 * 1000 / of_int h, of_int X0 * 1000 / of_int w,
                            of_int Y1 * 1000 / of_int h, of_int X1 * 1000 / of_int w]
             (0, 0, w, h) (w, h)
        = Inr [of_int Y0 * 1000 / of_int h, of_int X0 * 1000 / of_int w,
               of_int Y1 * 1000 / of_int h, of_int X1 * 1000 / of_int w]"
    by (rule map_box_to_full_identity [OF dims cx(3,4,5,6) cy(3,4,5,6)])
  have bx0: "\<bar>of_int X0 * 1000 / of_int w - x0\<bar> \<le> 1500 / of_int w"
  proof -
    have "\<bar>of_int X0 - ?px\<bar> \<le> 3 / 2" using cx(1) by linarith
    from scale_back [OF dims(1) this] show ?thesis by simp
  qed
  have bx1: "\<bar>of_int X1 * 1000 / of_int w - x1\<bar> \<le> 1500 / of_int w"
    using scale_back [OF dims(1) cx(2)] by simp
  have by0: "\<bar>of_int Y0 * 1000 / of_int h - y0\<bar> \<le> 1500 / of_int h"
  proof -
    have "\<bar>of_int Y0 - ?py\<bar> \<le> 3 / 2" using cy(1) by linarith
    from scale_back [OF dims(2) this] show ?thesis by simp
  qed
  have by1: "\<bar>of_int Y1 * 1000 / of_int h - y1\<bar> \<le> 1500 / of_int h"
    using scale_back [OF dims(2) cy(2)] by simp
  show ?thesis using run inv bx0 bx1 by0 by1 by blast
qed

lemma py_round_504: "py_round (252 / 5) = 50"
  by (simp add: py_round_def)

text \<open>
  Claim C8 as stated fails on an image of 100 by 100 pixels: the box
  \<open>[0, 0, 1000, 504]\<close> becomes the pixel box \<open>(0, 0, 50, 100)\<close>, which maps back to
  \<open>x1 = 500\<close>, four units from 504. Handing the pixel numbers to \<open>_map_box_to_full\<close>
  as they are returns them unchanged, \<open>x1 = 50\<close>.
\<close>

theorem C8_round_trip_counterexample:
  "box_to_px [0, 0, 1000, 504] 100 100 = Inr (0, 0, 50, 100) \<and>
   map_box_to_full [of_int 0 * 1000 / of_int 100, of_int 0 * 1000 / of_int 100,
                    of_int 100 * 1000 / of_int 100, of_int 50 * 1000 / of_int 100]
     (0, 0, 100, 100) (100, 100) = Inr [0, 0, 1000, 500] \<and>
   map_box_to_full [0, 0, 100, 50] (0, 0, 100, 100) (100, 100) = Inr [0, 0, 100, 50] \<and>
   \<not> \<bar>500 - 504\<bar> \<le> (1 :: real) \<and> \<not> \<bar>50 - 504\<bar> \<le> (1 :: real)"
  by (simp add: box_to_px_len4 py_round_numeral py_round_504 map_box_to_full_def)

theorem C8_round_trip_pixel_tolerance_witness:
  "(1::int) \<le> 2000 \<and> (0::real) \<le> 100 \<and> (100::real) \<le> 1000 \<and> (0::real) \<le> 900 \<and>
   (900::real) \<le> 1000 \<and> (100::real) < 900 \<and>
   box_to_px [100, 100, 900, 900] 2000 2000 = Inr (200, 200, 1800, 1800) \<and>
   (\<exists>X0 Y0 X1 Y1 a b c d.
      box_to_px [100, 100, 900, 900] 2000 2000 = Inr (X0, Y0, X1, Y1) \<and>
      map_box_to_full [of_int Y0 * 1000 / of_int 2000, of_int X0 * 1000 / of_int 2000,
                       of_int Y1 * 1000 / of_int 2000, of_int X1 * 1000 / of_int 2000]
        (0, 0, 2000, 2000) (2000, 2000) = Inr [a, b, c, d] \<and>
      \<bar>a - 100\<bar> \<le> 1500 / of_int 2000 \<and> \<bar>b - 100\<bar> \<le> 1500 / of_int 2000 \<and>
      \<bar>c - 900\<bar> \<le> 1500 / of_int 2000 \<and> \<bar>d - 900\<bar> \<le> 1500 / of_int 2000)"
proof -
  have px: "box_to_px [100, 100, 900, 900] 2000 2000 = Inr (200, 200, 1800, 1800)"
    by (simp add: box_to_px_len4 py_round_numeral)
  have "\<exists>X0 Y0 X1 Y1 a b c d.
      box_to_px [100, 100, 900, 900] 2000 2000 = Inr (X0, Y0, X1, Y1) \<and>
      map_box_to_full [of_int Y0 * 1000 / of_int 2000, of_int X0 * 1000 / of_int 2000,
                       of_int Y1 * 1000 / of_int 2000, of_int X1 * 1000 / of_int 2000]
        (0, 0, 2000, 2000) (2000, 2000) = Inr [a, b, c, d] \<and>
      \<bar>a - 100\<bar> \<le> 1500 / of_int 2000 \<and> \<bar>b - 100\<bar> \<le> 1500 / of_int 2000 \<and>
      \<bar>c - 900\<bar> \<le> 1500 / of_int 2000 \<and> \<bar>d - 900\<bar> \<le> 1500 / of_int 2000"
    by (rule C8_round_trip_pixel_tolerance) simp_all
  with px show ?thesis by simp
qed

section \<open>Properties of the mask post-processor\<close>

lemma alpha_pixel:
  fixes m c :: "8 word"
  assumes "0 \<le> t" "t \<le> 255"
  shows "(if c > 0 then max m (word_of_int t) else 0) = 0
         \<or> t \<le> uint (if c > 0 then max m (word_of_int t) else 0)"
proof (cases "c > 0")
  case True
  have u: "uint (word_of_int t :: 8 word) = t"
    using assms by (simp add: uint_word_of_int take_bit_int_eq_self)
  have "(word_of_int t :: 8 word) \<le> max m (word_of_int t)" by simp
  then have "uint (word_of_int t :: 8 word) \<le> uint (max m (word_of_int t))"
    by (simp only: word_le_def)
  with u True show ?thesis by simp
next
  case False
  then show ?thesis by simp
qed

lemma map2_rows_gated:
  fixes cleaned mask_np :: raster
  assumes "0 \<le> t" "t \<le> 255"
  shows "\<forall>row \<in> set (map2 (map2 (\<lambda>c m. if c > 0 then max m (word_of_int t) else 0))
                          cleaned mask_np).
           \<forall>v \<in> set row. v = 0 \<or> t \<le> uint v"
proof (intro ballI)
  fix row v
  assume row: "row \<in> set (map2 (map2 (\<lambda>c m. if c > 0 then max m (word_of_int t) else 0))
                          cleaned mask_np)"
    and v: "v \<in> set row"
  from row obtain cr mr :: "8 word list" where
    "row = map2 (\<lambda>c m. if c > 0 then max m (word_of_int t) else 0) cr mr"
    by auto
  with v obtain c m :: "8 word" where "v = (if c > 0 then max m (word_of_int t) else 0)"
    by auto
  then show "v = 0 \<or> t \<le> uint v" using alpha_pixel [OF assms, of c m] by simp
qed

lemma crop_rows:
  assumes "\<forall>row \<in> set a. \<forall>v \<in> set row. P v"
  shows "\<forall>row \<in> set (crop a box). \<forall>v \<in> set row. P v"
proof (intro ballI)
  fix row v assume row: "row \<in> set (crop a box)" and v: "v \<in> set row"
  obtain l t r b where box: "box = (l, t, r, b)" by (cases box) auto
  from row obtain row' where r': "row' \<in> set (take (nat (b - t)) (drop (nat t) a))"
    and eq: "row = take (nat (r - l)) (drop (nat l) row')"
    by (auto simp: crop_def box)
  from r' have "row' \<in> set a" by (meson in_set_dropD in_set_takeD)
  moreover from v eq have "v \<in> set row'" by (meson in_set_dropD in_set_takeD)
  ultimately show "P v" using assms by blast
qed

text \<open>
  Claim C10. When \<open>apply_mask\<close> returns with \<open>feather = 0\<close>, every pixel of the alpha
  channel, of the alpha channel of the full-size cutout, and of the cropped cutout and
  its alpha channel is 0 or at least the threshold clamped to \<open>[0, 255]\<close>.
\<close>

theorem C10_alpha_zero_or_at_least_threshold:
  assumes "apply_mask lib cv env image_bytes mask_bytes box_2d threshold 0 padding auto_enhance
             = Inr r"
  shows "(\<forall>row \<in> set (r_alpha r). \<forall>v \<in> set row. v = 0 \<or> max 0 (min 255 threshold) \<le> uint v) \<and>
         (\<forall>row \<in> set (r_cutout_full r). \<forall>v \<in> set row.
             v = 0 \<or> max 0 (min 255 threshold) \<le> uint v) \<and>
         (\<forall>row \<in> set (r_cutout r). \<forall>v \<in> set row.
             v = 0 \<or> max 0 (min 255 threshold) \<le> uint v) \<and>
         (\<forall>row \<in> set (r_cutout_alpha r). \<forall>v \<in> set row.
             v = 0 \<or> max 0 (min 255 threshold) \<le> uint v)"
proof -
  let ?t = "max 0 (min 255 threshold)"
  have t: "0 \<le> ?t" "?t \<le> 255" by simp_all
  have "open_image lib image_bytes \<noteq> None"
  proof
    assume n: "open_image lib image_bytes = None"
    have "apply_mask lib cv env image_bytes mask_bytes box_2d threshold 0 padding auto_enhance
            = Inl (ValueError ''Unsupported image format'')"
      unfolding apply_mask_def n option.case ..
    with assms show False by simp
  qed
  then obtain width height where oi: "open_image lib image_bytes = Some (width, height)"
    by (cases "open_image lib image_bytes") auto
  have "open_mask lib mask_bytes \<noteq> None"
  proof
    assume n: "open_mask lib mask_bytes = None"
    have "apply_mask lib cv env image_bytes mask_bytes box_2d threshold 0 padding auto_enhance
            = Inl (ValueError ''Invalid mask image'')"
      unfolding apply_mask_def oi n option.case prod.case ..
    with assms show False by simp
  qed
  then obtain mask_img where om: "open_mask lib mask_bytes = Some mask_img"
    by (cases "open_mask lib mask_bytes") auto
  have "\<exists>x0 y0 x1 y1. normalize_box box_2d width height = Inr (x0, y0, x1, y1)"
  proof (cases "normalize_box box_2d width height")
    case (Inl e)
    have "apply_mask lib cv env image_bytes mask_bytes box_2d threshold 0 padding auto_enhance
            = Inl e"
      unfolding apply_mask_def oi om Inl option.case prod.case sum.case ..
    with assms show ?thesis by simp
  next
    case (Inr t)
    then show ?thesis by (cases t) auto
  qed
  then obtain x0 y0 x1 y1 where
    nb: "normalize_box box_2d width height = Inr (x0, y0, x1, y1)" by blast
  define mask_np where "mask_np = smooth_full_mask lib mask_img
     (max 1 (x1 - x0), max 1 (y1 - y0)) (x0, y0) (width, height) auto_enhance"
  define cleaned where "cleaned = cleanup_binary_mask cv env
     (map (map (\<lambda>m. if uint m \<ge> ?t then 1 else 0)) mask_np)"
  define alpha where
    "alpha = map2 (map2 (\<lambda>c m. if c > 0 then max m (word_of_int ?t) else 0)) cleaned mask_np"
  define bbox where
    "bbox = (case getbbox alpha of None \<Rightarrow> (0, 0, width, height) | Some b \<Rightarrow> b)"
  define box where
    "box = (max 0 (fst bbox - max 0 padding), max 0 (fst (snd bbox) - max 0 padding),
            min width (fst (snd (snd bbox)) + max 0 padding),
            min height (snd (snd (snd bbox)) + max 0 padding))"
  have "apply_mask lib cv env image_bytes mask_bytes box_2d threshold 0 padding auto_enhance
          = Inr \<lparr>r_mask = mask_np, r_alpha = alpha, r_cutout = crop alpha box,
                  r_cutout_full = alpha, r_cutout_alpha = crop alpha box,
                  r_box_px = [fst box, fst (snd box), fst (snd (snd box)), snd (snd (snd box))],
                  r_size = [width, height]\<rparr>"
    unfolding apply_mask_def oi om nb option.case sum.case prod.case Let_def
      box_def bbox_def alpha_def cleaned_def mask_np_def
    by (simp only: less_irrefl if_False fst_conv snd_conv)
  with assms have "r = \<lparr>r_mask = mask_np, r_alpha = alpha, r_cutout = crop alpha box,
                  r_cutout_full = alpha, r_cutout_alpha = crop alpha box,
                  r_box_px = [fst box, fst (snd box), fst (snd (snd box)), snd (snd (snd box))],
                  r_size = [width, height]\<rparr>"
    by (simp only: sum.inject)
  then have a: "r_alpha r = alpha" and f: "r_cutout_full r = alpha"
    and c: "r_cutout r = crop alpha box" and ca: "r_cutout_alpha r = crop alpha box"
    by simp_all
  have g: "\<forall>row \<in> set alpha. \<forall>v \<in> set row. v = 0 \<or> ?t \<le> uint v"
    unfolding alpha_def by (rule map2_rows_gated [OF t])
  from crop_rows [OF g] g show ?thesis unfolding a f c ca by blast
qed

theorem C10_alpha_zero_or_at_least_threshold_witness:
  "apply_mask
     \<lparr>open_image = (\<lambda>b. Some (2, 2)), open_mask = (\<lambda>b. Some ()),
      smooth_full_mask = (\<lambda>m s p f e. [[200, 100], [130, 0]]),
      mean_gradient_of = (\<lambda>a. 0), gaussian_blur = (\<lambda>r a. a)\<rparr>
     \<lparr>morph_close = (\<lambda>a. a), morph_open = (\<lambda>a. a),
      connectedComponentsWithStats = (\<lambda>a. (1, [[0, 0], [0, 0]], [(0, 0, 2, 2, 4)]))\<rparr>
     \<lparr>CANDIDATE_AREA_MIN = Unset, CANDIDATE_AREA_MAX = Unset, MASK_HOLE_RATIO = Unset\<rparr>
     [] [] [0, 0, 1000, 1000] 128 0 0 False
   = Inr \<lparr>r_mask = [[200, 100], [130, 0]], r_alpha = [[200, 0], [130, 0]],
          r_cutout = [[200], [130]], r_cutout_full = [[200, 0], [130, 0]],
          r_cutout_alpha = [[200], [130]], r_box_px = [0, 0, 1, 2], r_size = [2, 2]\<rparr> \<and>
   max 0 (min 255 128) \<le> uint (200 :: 8 word) \<and>
   max 0 (min 255 128) \<le> uint (130 :: 8 word)"
proof -
  have nb: "normalize_box [0, 0, 1000, 1000] 2 2 = Inr (0, 0, 2, 2)"
    by (simp add: normalize_box_eq box_to_px_len4 py_round_numeral)
  have cl: "cleanup_binary_mask \<lparr>morph_close = (\<lambda>a. a), morph_open = (\<lambda>a. a),
      connectedComponentsWithStats = (\<lambda>a. (Suc 0, [[0, 0], [0, 0]], [(0, 0, 2, 2, 4)]))\<rparr>
     \<lparr>CANDIDATE_AREA_MIN = Unset, CANDIDATE_AREA_MAX = Unset, MASK_HOLE_RATIO = Unset\<rparr>
     [[1, 0], [1, 0]] = [[1, 0], [1, 0]]"
    by (simp add: cleanup_binary_mask_def largest_component_def shape_def hole_threshold_def
        Let_def)
  have gb: "getbbox [[200, 0], [130, 0]] = Some (0, 0, 1, 2)"
    by (simp add: getbbox_def shape_def Let_def)
  have cr: "crop [[200, 0], [130, 0]] (0, 0, 1, 2) = [[200], [130]]"
    by (simp add: crop_def)
  have run: "apply_mask
     \<lparr>open_image = (\<lambda>b. Some (2, 2)), open_mask = (\<lambda>b. Some ()),
      smooth_full_mask = (\<lambda>m s p f e. [[200, 100], [130, 0]]),
      mean_gradient_of = (\<lambda>a. 0), gaussian_blur = (\<lambda>r a. a)\<rparr>
     \<lparr>morph_close = (\<lambda>a. a), morph_open = (\<lambda>a. a),
      connectedComponentsWithStats = (\<lambda>a. (1, [[0, 0], [0, 0]], [(0, 0, 2, 2, 4)]))\<rparr>
     \<lparr>CANDIDATE_AREA_MIN = Unset, CANDIDATE_AREA_MAX = Unset, MASK_HOLE_RATIO = Unset\<rparr>
     [] [] [0, 0, 1000, 1000] 128 0 0 False
   = Inr \<lparr>r_mask = [[200, 100], [130, 0]], r_alpha = [[200, 0], [130, 0]],
          r_cutout = [[200], [130]], r_cutout_full = [[200, 0], [130, 0]],
          r_cutout_alpha = [[200], [130]], r_box_px = [0, 0, 1, 2], r_size = [2, 2]\<rparr>"
    by (simp add: apply_mask_def nb cl gb cr Let_def)
  from C10_alpha_zero_or_at_least_threshold [OF run] run show ?thesis by simp
qed

lemma set_where_length:
  "length labs = length a \<Longrightarrow> length (set_where labs l v a) = length a"
  by (simp add: set_where_def)

lemma set_where_row:
  assumes "length labs = length a" "i < length a"
  shows "set_where labs l v a ! i = map2 (\<lambda>l' x. if l' = l then v else x) (labs ! i) (a ! i)"
  using assms by (simp add: set_where_def)

lemma set_where_row_length:
  assumes "length labs = length a" "i < length a" "length (labs ! i) = length (a ! i)"
  shows "length (set_where labs l v a ! i) = length (a ! i)"
  using assms by (simp add: set_where_row)

lemma set_where_pixel:
  assumes "length labs = length a" "i < length a" "length (labs ! i) = length (a ! i)"
    "j < length (a ! i)"
  shows "set_where labs l v a ! i ! j = (if labs ! i ! j = l then v else a ! i ! j)"
  using assms by (simp add: set_where_row)

lemma fill_holes_pixel:
  assumes "length labs = length a" "\<forall>i < length a. length (labs ! i) = length (a ! i)"
    "i < length a" "j < length (a ! i)"
  shows "fill_holes ls stats labs W H t a ! i ! j =
           (if labs ! i ! j \<in> set ls \<and>
               (case stats ! (labs ! i ! j) of (x, y, w, h, area) \<Rightarrow>
                  \<not> (x = 0 \<or> y = 0 \<or> x + w \<ge> W \<or> y + h \<ge> H) \<and> area \<le> t)
            then 1 else a ! i ! j)"
  using assms
proof (induction ls arbitrary: a)
  case Nil
  then show ?case by simp
next
  case (Cons l ls)
  obtain x y w h area where st: "stats ! l = (x, y, w, h, area)"
    by (cases "stats ! l") auto
  let ?a' = "set_where labs l 1 a"
  have shape': "length labs = length ?a'" "\<forall>i < length ?a'. length (labs ! i) = length (?a' ! i)"
    "i < length ?a'" "j < length (?a' ! i)"
    using Cons.prems by (simp_all add: set_where_length set_where_row_length)
  have px': "?a' ! i ! j = (if labs ! i ! j = l then 1 else a ! i ! j)"
    using Cons.prems by (intro set_where_pixel) simp_all
  show ?case
  proof (cases "\<not> (x = 0 \<or> y = 0 \<or> x + w \<ge> W \<or> y + h \<ge> H) \<and> area \<le> t")
    case True
    then have "fill_holes (l # ls) stats labs W H t a = fill_holes ls stats labs W H t ?a'"
      by (simp add: st)
    then show ?thesis
      using Cons.IH [OF shape'] px' True st by auto
  next
    case False
    then have "fill_holes (l # ls) stats labs W H t a = fill_holes ls stats labs W H t a"
      by (auto simp: st)
    then show ?thesis
      using Cons.IH [OF Cons.prems] False st by auto
  qed
qed

lemma below_threshold:
  fixes area :: int and X :: real
  assumes "of_int area < max 1 X"
  shows "area \<le> max 1 \<lfloor>X\<rfloor>"
proof (cases "of_int area < X")
  case True
  then have "area \<le> \<lfloor>X\<rfloor>" by (simp add: le_floor_iff)
  then show ?thesis by simp
next
  case False
  with assms have "real_of_int area < 1" by (simp add: max_def split: if_splits)
  then have "area < 1" by simp
  then show ?thesis by simp
qed

text \<open>
  Claim C3, amended. The holes that \<open>_cleanup_binary_mask\<close> fills or keeps are not the
  background components of its input but those of \<open>cleaned0\<close>, the mask after the close,
  the open and the selection of the largest component. Let OpenCV label the components
  of the complement of \<open>cleaned0\<close>, with a label image of the shape of the mask and one
  row of statistics per label. For a hole \<open>label\<close> (\<open>1 \<le> label < num_holes\<close>) and a pixel
  that carries this label: if the bounding box of the hole does not touch the raster
  border and its area is below \<open>max(1, height * width * holeRatio)\<close>, with \<open>holeRatio\<close> the
  value of \<open>MASK_HOLE_RATIO\<close> (0.01 when unset or unreadable) clamped to
  \<open>[0.001, 0.05]\<close>, the pixel is 1 in the result; if the bounding box touches the border,
  the pixel is left as it is in \<open>cleaned0\<close>. This holds whatever the morphological calls
  and the labelling return.
\<close>

theorem C3_interior_holes_filled_border_holes_kept:
  fixes cleaned0 :: raster
  assumes c0: "cleaned0 = largest_component cv binary"
    and cc: "connectedComponentsWithStats cv (map (map (\<lambda>c. 1 - c)) cleaned0)
               = (num_holes, hole_labels, hole_stats)"
    and shp: "length hole_labels = length cleaned0"
             "\<forall>i < length cleaned0. length (hole_labels ! i) = length (cleaned0 ! i)"
             "length hole_stats = num_holes"
    and dims: "shape cleaned0 = (height, width)"
    and lab: "1 \<le> label" "label < num_holes" "hole_stats ! label = (x, y, w, h, area)"
    and px: "i < length cleaned0" "j < length (cleaned0 ! i)" "hole_labels ! i ! j = label"
  shows "(\<not> (x = 0 \<or> y = 0 \<or> x + w \<ge> int width \<or> y + h \<ge> int height) \<and>
          of_int area < max 1 (of_nat (height * width)
                                 * max (1 / 1000) (min (5 / 100)
                                     (case MASK_HOLE_RATIO env of Parsed r \<Rightarrow> r
                                      | _ \<Rightarrow> 1 / 100)))
            \<longrightarrow> cleanup_binary_mask cv env binary ! i ! j = 1) \<and>
         ((x = 0 \<or> y = 0 \<or> x + w \<ge> int width \<or> y + h \<ge> int height)
            \<longrightarrow> cleanup_binary_mask cv env binary ! i ! j = cleaned0 ! i ! j)"
proof -
  have sh: "shape (map (map (\<lambda>c. 1 - c)) cleaned0) = (height, width)"
    using dims by (auto simp: shape_def hd_map)
  have run: "cleanup_binary_mask cv env binary =
      fill_holes [1..<num_holes] hole_stats hole_labels (int width) (int height)
        (hole_threshold env height width) cleaned0"
    unfolding cleanup_binary_mask_def Let_def c0 [symmetric] cc sh prod.case ..
  have mem: "hole_labels ! i ! j \<in> set [1..<num_holes]" using lab(1,2) px(3) by simp
  have pixel: "cleanup_binary_mask cv env binary ! i ! j =
      (if \<not> (x = 0 \<or> y = 0 \<or> x + w \<ge> int width \<or> y + h \<ge> int height)
            \<and> area \<le> hole_threshold env height width
       then 1 else cleaned0 ! i ! j)"
    unfolding run fill_holes_pixel [OF shp(1,2) px(1,2)] using mem lab(3) px(3) by simp
  have thr: "area \<le> hole_threshold env height width"
    if "of_int area < max 1 (of_nat (height * width)
                                 * max (1 / 1000) (min (5 / 100)
                                     (case MASK_HOLE_RATIO env of Parsed r \<Rightarrow> r
                                      | _ \<Rightarrow> 1 / 100)))"
    using below_threshold [OF that] by (simp add: hole_threshold_def Let_def)
  show ?thesis using pixel thr by auto
qed

text \<open>
  Claim C3 as stated fails on the mask of 5 by 5 pixels that is 1 everywhere except at
  \<open>(2, 2)\<close> and at \<open>(4, 0)\<close>. The pixel \<open>(4, 0)\<close> is a background component of the input on
  its own (its three neighbours are 1) and lies in the first column and the last row, so
  its bounding box touches the border. The close with the 3 by 3 kernel sets it to 1
  before any hole is labelled: the dilation takes the value 1 from the neighbour
  \<open>(3, 0)\<close>, and the erosion of the all-ones raster changes nothing. The result of the
  cleanup has 1 at this pixel. (The labelling is given the values OpenCV returns on the
  all-ones raster and on its complement; the statistics row of the empty background of
  the former is not read.)
\<close>

theorem C3_border_hole_filled_by_close_counterexample:
  "[[1,1,1,1,1],[1,1,1,1,1],[1,1,0,1,1],[1,1,1,1,1],[0,1,1,1,1::8 word]] ! 4 ! 0 = 0 \<and>
   morph_close_ellipse3 [[1,1,1,1,1],[1,1,1,1,1],[1,1,0,1,1],[1,1,1,1,1],[0,1,1,1,1]]
     = [[1,1,1,1,1],[1,1,1,1,1],[1,1,1,1,1],[1,1,1,1,1],[1,1,1,1,1]] \<and>
   cleanup_binary_mask
     \<lparr>morph_close = morph_close_ellipse3, morph_open = morph_open_ellipse3,
      connectedComponentsWithStats =
        (\<lambda>a. if a = [[1,1,1,1,1],[1,1,1,1,1],[1,1,1,1,1],[1,1,1,1,1],[1,1,1,1,1]]
             then (2, [[1,1,1,1,1],[1,1,1,1,1],[1,1,1,1,1],[1,1,1,1,1],[1,1,1,1,1]],
                   [(0, 0, 0, 0, 0), (0, 0, 5, 5, 25)])
             else (1, [[0,0,0,0,0],[0,0,0,0,0],[0,0,0,0,0],[0,0,0,0,0],[0,0,0,0,0]],
                   [(0, 0, 5, 5, 25)]))\<rparr>
     \<lparr>CANDIDATE_AREA_MIN = Unset, CANDIDATE_AREA_MAX = Unset, MASK_HOLE_RATIO = Unset\<rparr>
     [[1,1,1,1,1],[1,1,1,1,1],[1,1,0,1,1],[1,1,1,1,1],[0,1,1,1,1]] ! 4 ! 0 = 1"
proof -
  let ?B = "[[1,1,1,1,1],[1,1,1,1,1],[1,1,0,1,1],[1,1,1,1,1],[0,1,1,1,1]] :: raster"
  let ?O = "[[1,1,1,1,1],[1,1,1,1,1],[1,1,1,1,1],[1,1,1,1,1],[1,1,1,1,1]] :: raster"
  have cl: "morph_close_ellipse3 ?B = ?O" by code_simp
  have op: "morph_open_ellipse3 ?O = ?O" by code_simp
  show ?thesis
    by (simp add: cleanup_binary_mask_def largest_component_def cl op label_mask_def
        stat_area_def shape_def hole_threshold_def Let_def)
qed

text \<open>
  An instance with the close and open of OpenCV: a mask of 11 by 11 pixels with a
  plus-shaped hole of five pixels around \<open>(5, 7)\<close> and a hole of four pixels at the left
  border, \<open>(4, 0)\<close>, \<open>(5, 0)\<close>, \<open>(6, 0)\<close>, \<open>(5, 1)\<close>. Neither the close nor the open changes
  this mask. With \<open>MASK_HOLE_RATIO = 0.05\<close> the threshold is \<open>121 * 0.05 = 6.05\<close>: the
  interior hole is filled and the hole at the border is kept.
\<close>

theorem C3_interior_holes_filled_border_holes_kept_witness:
  "cleanup_binary_mask
     \<lparr>morph_close = morph_close_ellipse3, morph_open = morph_open_ellipse3,
      connectedComponentsWithStats =
        (\<lambda>a. if a = [[1,1,1,1,1,1,1,1,1,1,1],[1,1,1,1,1,1,1,1,1,1,1],[1,1,1,1,1,1,1,1,1,1,1],
            [1,1,1,1,1,1,1,1,1,1,1],[0,1,1,1,1,1,1,0,1,1,1],[0,0,1,1,1,1,0,0,0,1,1],
            [0,1,1,1,1,1,1,0,1,1,1],[1,1,1,1,1,1,1,1,1,1,1],[1,1,1,1,1,1,1,1,1,1,1],
            [1,1,1,1,1,1,1,1,1,1,1],[1,1,1,1,1,1,1,1,1,1,1]]
             then (2, [[1,1,1,1,1,1,1,1,1,1,1],[1,1,1,1,1,1,1,1,1,1,1],[1,1,1,1,1,1,1,1,1,1,1],
            [1,1,1,1,1,1,1,1,1,1,1],[0,1,1,1,1,1,1,0,1,1,1],[0,0,1,1,1,1,0,0,0,1,1],
            [0,1,1,1,1,1,1,0,1,1,1],[1,1,1,1,1,1,1,1,1,1,1],[1,1,1,1,1,1,1,1,1,1,1],
            [1,1,1,1,1,1,1,1,1,1,1],[1,1,1,1,1,1,1,1,1,1,1]],
                   [(0, 4, 9, 3, 9), (0, 0, 11, 11, 112)])
             else (3, [[0,0,0,0,0,0,0,0,0,0,0],[0,0,0,0,0,0,0,0,0,0,0],[0,0,0,0,0,0,0,0,0,0,0],
            [0,0,0,0,0,0,0,0,0,0,0],[1,0,0,0,0,0,0,2,0,0,0],[1,1,0,0,0,0,2,2,2,0,0],
            [1,0,0,0,0,0,0,2,0,0,0],[0,0,0,0,0,0,0,0,0,0,0],[0,0,0,0,0,0,0,0,0,0,0],
            [0,0,0,0,0,0,0,0,0,0,0],[0,0,0,0,0,0,0,0,0,0,0]],
                   [(0, 0, 11, 11, 112), (0, 4, 2, 3, 4), (6, 4, 3, 3, 5)]))\<rparr>
     \<lparr>CANDIDATE_AREA_MIN = Unset, CANDIDATE_AREA_MAX = Unset, MASK_HOLE_RATIO = Parsed (5 / 100)\<rparr>
     [[1,1,1,1,1,1,1,1,1,1,1],[1,1,1,1,1,1,1,1,1,1,1],[1,1,1,1,1,1,1,1,1,1,1],
            [1,1,1,1,1,1,1,1,1,1,1],[0,1,1,1,1,1,1,0,1,1,1],[0,0,1,1,1,1,0,0,0,1,1],
            [0,1,1,1,1,1,1,0,1,1,1],[1,1,1,1,1,1,1,1,1,1,1],[1,1,1,1,1,1,1,1,1,1,1],
            [1,1,1,1,1,1,1,1,1,1,1],[1,1,1,1,1,1,1,1,1,1,1]]
   = [[1,1,1,1,1,1,1,1,1,1,1],[1,1,1,1,1,1,1,1,1,1,1],[1,1,1,1,1,1,1,1,1,1,1],
            [1,1,1,1,1,1,1,1,1,1,1],[0,1,1,1,1,1,1,1,1,1,1],[0,0,1,1,1,1,1,1,1,1,1],
            [0,1,1,1,1,1,1,1,1,1,1],[1,1,1,1,1,1,1,1,1,1,1],[1,1,1,1,1,1,1,1,1,1,1],
            [1,1,1,1,1,1,1,1,1,1,1],[1,1,1,1,1,1,1,1,1,1,1]] \<and>
   \<not> ((6::int) = 0 \<or> (4::int) = 0 \<or> (6::int) + 3 \<ge> int 11 \<or> (4::int) + 3 \<ge> int 11) \<and>
   of_int 5 < max 1 (of_nat (11 * 11) * max (1 / 1000) (min (5 / 100) (5 / 100 :: real))) \<and>
   ((0::int) = 0 \<or> (4::int) = 0 \<or> (0::int) + 2 \<ge> int 11 \<or> (4::int) + 3 \<ge> int 11)"
proof -
  let ?B = "[[1,1,1,1,1,1,1,1,1,1,1],[1,1,1,1,1,1,1,1,1,1,1],[1,1,1,1,1,1,1,1,1,1,1],
            [1,1,1,1,1,1,1,1,1,1,1],[0,1,1,1,1,1,1,0,1,1,1],[0,0,1,1,1,1,0,0,0,1,1],
            [0,1,1,1,1,1,1,0,1,1,1],[1,1,1,1,1,1,1,1,1,1,1],[1,1,1,1,1,1,1,1,1,1,1],
            [1,1,1,1,1,1,1,1,1,1,1],[1,1,1,1,1,1,1,1,1,1,1]] :: raster"
  let ?BL = "[[1,1,1,1,1,1,1,1,1,1,1],[1,1,1,1,1,1,1,1,1,1,1],[1,1,1,1,1,1,1,1,1,1,1],
            [1,1,1,1,1,1,1,1,1,1,1],[0,1,1,1,1,1,1,0,1,1,1],[0,0,1,1,1,1,0,0,0,1,1],
            [0,1,1,1,1,1,1,0,1,1,1],[1,1,1,1,1,1,1,1,1,1,1],[1,1,1,1,1,1,1,1,1,1,1],
            [1,1,1,1,1,1,1,1,1,1,1],[1,1,1,1,1,1,1,1,1,1,1]] :: labels"
  let ?L = "[[0,0,0,0,0,0,0,0,0,0,0],[0,0,0,0,0,0,0,0,0,0,0],[0,0,0,0,0,0,0,0,0,0,0],
            [0,0,0,0,0,0,0,0,0,0,0],[1,0,0,0,0,0,0,2,0,0,0],[1,1,0,0,0,0,2,2,2,0,0],
            [1,0,0,0,0,0,0,2,0,0,0],[0,0,0,0,0,0,0,0,0,0,0],[0,0,0,0,0,0,0,0,0,0,0],
            [0,0,0,0,0,0,0,0,0,0,0],[0,0,0,0,0,0,0,0,0,0,0]] :: labels"
  let ?S = "[(0, 0, 11, 11, 112), (0, 4, 2, 3, 4), (6, 4, 3, 3, 5)]
              :: (int \<times> int \<times> int \<times> int \<times> int) list"
  let ?cv = "\<lparr>morph_close = morph_close_ellipse3, morph_open = morph_open_ellipse3,
      connectedComponentsWithStats =
        (\<lambda>a. if a = ?B then (2, ?BL, [(0, 4, 9, 3, 9), (0, 0, 11, 11, 112)])
             else (3, ?L, ?S))\<rparr>"
  let ?env = "\<lparr>CANDIDATE_AREA_MIN = Unset, CANDIDATE_AREA_MAX = Unset,
               MASK_HOLE_RATIO = Parsed (5 / 100)\<rparr>"
  have cl: "morph_close_ellipse3 ?B = ?B" by code_simp
  have op: "morph_open_ellipse3 ?B = ?B" by code_simp
  have c0: "?B = largest_component ?cv ?B"
    by (simp add: largest_component_def cl op label_mask_def stat_area_def Let_def)
  have cc: "connectedComponentsWithStats ?cv (map (map (\<lambda>c. 1 - c)) ?B) = (3, ?L, ?S)"
    by simp
  have shp: "length ?L = length ?B" "\<forall>i < length ?B. length (?L ! i) = length (?B ! i)"
    "length ?S = 3"
    by (simp_all add: less_Suc_eq)
  have dims: "shape ?B = (11, 11)" by (simp add: shape_def)
  have in1: "(1::nat) \<le> 2" "(2::nat) < 3" "?S ! 2 = (6, 4, 3, 3, 5)"
    "5 < length ?B" "7 < length (?B ! 5)" "?L ! 5 ! 7 = 2" by simp_all
  have in2: "(1::nat) \<le> 1" "(1::nat) < 3" "?S ! 1 = (0, 4, 2, 3, 4)"
    "5 < length ?B" "0 < length (?B ! 5)" "?L ! 5 ! 0 = 1" by simp_all
  note a = C3_interior_holes_filled_border_holes_kept
             [OF c0 cc shp dims in1, where env = ?env]
  note b = C3_interior_holes_filled_border_holes_kept
             [OF c0 cc shp dims in2, where env = ?env]
  have run: "cleanup_binary_mask ?cv ?env ?B
       = [[1,1,1,1,1,1,1,1,1,1,1],[1,1,1,1,1,1,1,1,1,1,1],[1,1,1,1,1,1,1,1,1,1,1],
            [1,1,1,1,1,1,1,1,1,1,1],[0,1,1,1,1,1,1,1,1,1,1],[0,0,1,1,1,1,1,1,1,1,1],
            [0,1,1,1,1,1,1,1,1,1,1],[1,1,1,1,1,1,1,1,1,1,1],[1,1,1,1,1,1,1,1,1,1,1],
            [1,1,1,1,1,1,1,1,1,1,1],[1,1,1,1,1,1,1,1,1,1,1]]"
    by (simp add: cleanup_binary_mask_def c0 [symmetric] shape_def hole_threshold_def
        set_where_def Let_def upt_conv_Cons)
  from a b run show ?thesis by simp
qed

section \<open>Properties of the base64 decoder\<close>

lemma b64_char_code:
  assumes "n < 64"
  shows "of_char (b64_char n) = (if n < 26 then 65 + n else if n < 52 then 71 + n
           else if n < 62 then n - 4 else if n = 62 then 43 else (47 :: nat))"
  using assms by (simp add: b64_char_def)

lemma b64_value_char: "n < 64 \<Longrightarrow> b64_value (b64_char n) = Some n"
  by (auto simp: b64_value_def b64_char_code Let_def b64_char_def)

lemma b64_char_props:
  assumes "n < 64"
  shows "b64_char n \<noteq> CHR ''=''" "\<not> is_space (b64_char n)" "(of_char (b64_char n) :: nat) \<le> 127"
    "b64_char n \<noteq> CHR '':''"
proof -
  have c: "of_char (b64_char n) = (if n < 26 then 65 + n else if n < 52 then 71 + n
           else if n < 62 then n - 4 else if n = 62 then 43 else (47 :: nat))"
    by (rule b64_char_code [OF assms])
  have "(of_char (b64_char n) :: nat) \<noteq> of_char CHR ''=''" unfolding c using assms by auto
  then show "b64_char n \<noteq> CHR ''=''" by metis
  show "\<not> is_space (b64_char n)" unfolding is_space_def Let_def c using assms by auto
  show "(of_char (b64_char n) :: nat) \<le> 127" unfolding c using assms by auto
  have "(of_char (b64_char n) :: nat) \<noteq> of_char CHR '':''" unfolding c using assms by auto
  then show "b64_char n \<noteq> CHR '':''" by metis
qed

lemma byte_bounds:
  fixes a :: "8 word"
  shows "unat a < 256" "unat a div 4 < 64" "unat a mod 4 * 16 < 64" "unat a mod 16 * 4 < 64"
    "unat a mod 64 < 64"
proof -
  show a: "unat a < 256" using unsigned_less [of a, where ?'a = nat] by simp
  then show "unat a div 4 < 64" by simp
  show "unat a mod 4 * 16 < 64" "unat a mod 16 * 4 < 64" "unat a mod 64 < 64" by presburger+
qed

lemma sextet_bounds:
  fixes a b :: "8 word"
  shows "unat a mod 4 * 16 + unat b div 16 < 64" "unat a mod 16 * 4 + unat b div 64 < 64"
proof -
  have "unat b < 256" by (rule byte_bounds)
  then have "unat b div 16 < 16" "unat b div 64 < 4" by simp_all
  moreover have "unat a mod 4 < 4" "unat a mod 16 < 16" by simp_all
  ultimately show "unat a mod 4 * 16 + unat b div 16 < 64"
    "unat a mod 16 * 4 + unat b div 64 < 64" by linarith+
qed

lemma rebuild1:
  fixes a b :: "8 word"
  shows "(of_nat (unat a div 4 * 4 + (unat a mod 4 * 16 + unat b div 16) div 16) :: 8 word) = a"
proof -
  have "unat b div 16 < 16" using byte_bounds(1) [of b] by simp
  then have "(unat a mod 4 * 16 + unat b div 16) div 16 = unat a mod 4" by simp
  then show ?thesis by simp
qed

lemma rebuild1':
  fixes a :: "8 word"
  shows "(of_nat (unat a div 4 * 4 + (unat a mod 4 * 16) div 16) :: 8 word) = a"
  by simp

lemma rebuild2:
  fixes a b c :: "8 word"
  shows "(of_nat ((unat a mod 4 * 16 + unat b div 16) mod 16 * 16
                 + (unat b mod 16 * 4 + unat c div 64) div 4) :: 8 word) = b"
proof -
  have "unat b div 16 < 16" using byte_bounds(1) [of b] by simp
  then have 1: "(unat a mod 4 * 16 + unat b div 16) mod 16 = unat b div 16" by simp
  have "unat c div 64 < 4" using byte_bounds(1) [of c] by simp
  then have 2: "(unat b mod 16 * 4 + unat c div 64) div 4 = unat b mod 16" by simp
  show ?thesis unfolding 1 2 by simp
qed

lemma rebuild2':
  fixes a b :: "8 word"
  shows "(of_nat ((unat a mod 4 * 16 + unat b div 16) mod 16 * 16
                 + (unat b mod 16 * 4) div 4) :: 8 word) = b"
proof -
  have "unat b div 16 < 16" using byte_bounds(1) [of b] by simp
  then have 1: "(unat a mod 4 * 16 + unat b div 16) mod 16 = unat b div 16" by simp
  show ?thesis unfolding 1 by simp
qed

lemma rebuild3:
  fixes b c :: "8 word"
  shows "(of_nat ((unat b mod 16 * 4 + unat c div 64) mod 4 * 64 + unat c mod 64) :: 8 word) = c"
proof -
  have "unat c div 64 < 4" using byte_bounds(1) [of c] by simp
  then have 1: "(unat b mod 16 * 4 + unat c div 64) mod 4 = unat c div 64" by simp
  show ?thesis unfolding 1 by simp
qed

lemma a2b_quad_gen:
  assumes "d1 < 64" "d2 < 64" "d3 < 64" "d4 < 64"
  shows "a2b_base64 0 0 0 (b64_char d1 # b64_char d2 # b64_char d3 # b64_char d4 # cs) out
         = a2b_base64 0 0 0 cs
             (out @ [of_nat (d1 * 4 + d2 div 16), of_nat (d2 mod 16 * 16 + d3 div 4),
                     of_nat (d3 mod 4 * 64 + d4)])"
  using assms by (simp add: b64_char_props b64_value_char)

lemma a2b_one_gen:
  assumes "d1 < 64" "d2 < 64"
  shows "a2b_base64 0 0 0 [b64_char d1, b64_char d2, CHR ''='', CHR ''=''] out
         = Inr (out @ [of_nat (d1 * 4 + d2 div 16)])"
  using assms by (simp add: b64_char_props b64_value_char)

lemma a2b_two_gen:
  assumes "d1 < 64" "d2 < 64" "d3 < 64"
  shows "a2b_base64 0 0 0 [b64_char d1, b64_char d2, b64_char d3, CHR ''=''] out
         = Inr (out @ [of_nat (d1 * 4 + d2 div 16), of_nat (d2 mod 16 * 16 + d3 div 4)])"
  using assms by (simp add: b64_char_props b64_value_char)

lemma a2b_quad:
  fixes a b c :: "8 word"
  shows "a2b_base64 0 0 0
           ([b64_char (unat a div 4), b64_char (unat a mod 4 * 16 + unat b div 16),
             b64_char (unat b mod 16 * 4 + unat c div 64), b64_char (unat c mod 64)] @ cs) out
         = a2b_base64 0 0 0 cs (out @ [a, b, c])"
  unfolding append_Cons append_Nil
    a2b_quad_gen [OF byte_bounds(2) sextet_bounds(1) sextet_bounds(2) byte_bounds(5)]
    rebuild1 rebuild2 rebuild3 ..

lemma a2b_one:
  fixes a :: "8 word"
  shows "a2b_base64 0 0 0
           [b64_char (unat a div 4), b64_char (unat a mod 4 * 16), CHR ''='', CHR ''='']  out
         = Inr (out @ [a])"
  unfolding a2b_one_gen [OF byte_bounds(2) byte_bounds(3)] rebuild1' ..

lemma a2b_two:
  fixes a b :: "8 word"
  shows "a2b_base64 0 0 0
           [b64_char (unat a div 4), b64_char (unat a mod 4 * 16 + unat b div 16),
            b64_char (unat b mod 16 * 4), CHR ''=''] out
         = Inr (out @ [a, b])"
  unfolding a2b_two_gen [OF byte_bounds(2) sextet_bounds(1) byte_bounds(4)]
    rebuild1 rebuild2' ..

lemma a2b_b64encode: "a2b_base64 0 0 0 (b64encode bs) out = Inr (out @ bs)"
proof (induction bs arbitrary: out rule: b64encode.induct)
  case 1
  show ?case by simp
next
  case (2 a)
  show ?case unfolding b64encode.simps by (rule a2b_one)
next
  case (3 a b)
  show ?case unfolding b64encode.simps by (rule a2b_two)
next
  case (4 a b c rest)
  show ?case unfolding b64encode.simps a2b_quad "4.IH" by simp
qed

lemma b64encode_ascii: "c \<in> set (b64encode bs) \<Longrightarrow> (of_char c :: nat) \<le> 127"
  by (induction bs rule: b64encode.induct)
     (auto simp: b64_char_props byte_bounds sextet_bounds)

lemma b64decode_b64encode: "b64decode (b64encode bs) = Inr bs"
proof -
  have "\<not> (\<exists>c \<in> set (b64encode bs). (of_char c :: nat) > 127)"
    using b64encode_ascii by fastforce
  then show ?thesis by (simp add: b64decode_def a2b_b64encode)
qed

lemma b64encode_length: "length (b64encode bs) mod 4 = 0"
  by (induction bs rule: b64encode.induct) simp_all

lemma b64encode_nonempty: "bs \<noteq> [] \<Longrightarrow> b64encode bs \<noteq> []"
  by (cases bs rule: b64encode.cases) simp_all

lemma pad_not_space: "\<not> is_space CHR ''=''"
  by (simp add: is_space_def)

lemma b64encode_no_space: "c \<in> set (b64encode bs) \<Longrightarrow> \<not> is_space c \<and> c \<noteq> CHR '':''"
  by (induction bs rule: b64encode.induct)
     (auto simp: b64_char_props byte_bounds sextet_bounds pad_not_space)

text \<open>Removing the padding and restoring it by length.\<close>

lemma unpadded_repad:
  assumes "bs \<noteq> []"
  shows "takeWhile (\<lambda>c. c \<noteq> CHR ''='') (b64encode bs) \<noteq> [] \<and>
         (let u = takeWhile (\<lambda>c. c \<noteq> CHR ''='') (b64encode bs)
          in (if length u mod 4 \<noteq> 0 then u @ replicate (4 - length u mod 4) CHR ''='' else u))
         = b64encode bs"
  using assms
proof (induction bs rule: b64encode.induct)
  case 1
  then show ?case by simp
next
  case (2 a)
  show ?case by (simp add: b64_char_props byte_bounds Let_def numeral_2_eq_2)
next
  case (3 a b)
  show ?case by (simp add: b64_char_props byte_bounds sextet_bounds Let_def)
next
  case (4 a b c rest)
  let ?q = "[b64_char (unat a div 4), b64_char (unat a mod 4 * 16 + unat b div 16),
      b64_char (unat b mod 16 * 4 + unat c div 64), b64_char (unat c mod 64)]"
  have tw: "takeWhile (\<lambda>c. c \<noteq> CHR ''='') (b64encode (a # b # c # rest))
            = ?q @ takeWhile (\<lambda>c. c \<noteq> CHR ''='') (b64encode rest)"
    by (simp add: b64_char_props byte_bounds sextet_bounds)
  show ?case
  proof (cases "rest = []")
    case True
    then show ?thesis by (simp add: b64_char_props byte_bounds sextet_bounds Let_def)
  next
    case False
    let ?u = "takeWhile (\<lambda>c. c \<noteq> CHR ''='') (b64encode rest)"
    from "4.IH" [OF False] have ne: "?u \<noteq> []"
      and re: "(if length ?u mod 4 \<noteq> 0 then ?u @ replicate (4 - length ?u mod 4) CHR ''=''
                else ?u) = b64encode rest"
      unfolding Let_def by blast+
    have len: "length (?q @ ?u) mod 4 = length ?u mod 4" by simp
    have "(if length ?u mod 4 \<noteq> 0 then (?q @ ?u) @ replicate (4 - length ?u mod 4) CHR ''=''
           else ?q @ ?u)
          = ?q @ (if length ?u mod 4 \<noteq> 0 then ?u @ replicate (4 - length ?u mod 4) CHR ''=''
                  else ?u)"
      by simp
    also have "\<dots> = b64encode (a # b # c # rest)" unfolding re by simp
    finally show ?thesis unfolding tw Let_def len by simp
  qed
qed

lemma filter_dropWhile_space:
  "filter (\<lambda>c. \<not> P c) (dropWhile P xs) = filter (\<lambda>c. \<not> P c) xs"
  by (induction xs) auto

lemma filter_rstrip:
  "filter (\<lambda>c. \<not> P c) (rev (dropWhile P (rev xs))) = filter (\<lambda>c. \<not> P c) xs"
proof -
  have "filter (\<lambda>c. \<not> P c) (rev (dropWhile P (rev xs)))
          = rev (filter (\<lambda>c. \<not> P c) (dropWhile P (rev xs)))" by (simp add: rev_filter)
  also have "\<dots> = rev (filter (\<lambda>c. \<not> P c) (rev xs))" by (simp only: filter_dropWhile_space)
  also have "\<dots> = filter (\<lambda>c. \<not> P c) xs" by (simp add: rev_filter)
  finally show ?thesis .
qed

lemma rstrip_append:
  assumes "\<exists>y \<in> set ys. \<not> P y"
  shows "rev (dropWhile P (rev (xs @ ys))) = xs @ rev (dropWhile P (rev ys))"
proof -
  from assms obtain y where "y \<in> set (rev ys)" "\<not> P y" by auto
  then have "dropWhile P (rev ys @ rev xs) = dropWhile P (rev ys) @ rev xs"
    by (rule dropWhile_append1)
  then show ?thesis by simp
qed

lemma strip_leading:
  assumes "\<forall>c \<in> set ws. is_space c" "\<not> is_space h"
  shows "strip (ws @ h # t) = rev (dropWhile is_space (rev (h # t)))"
proof -
  have "dropWhile is_space (ws @ h # t) = h # t"
    using assms by (simp add: dropWhile_append3)
  then show ?thesis by (simp add: strip_def)
qed

lemma strip_all_space:
  assumes "\<forall>c \<in> set ws. is_space c"
  shows "strip (ws @ s) = strip s"
proof -
  have "dropWhile is_space (ws @ s) = dropWhile is_space s"
    using assms by (induction ws) auto
  then show ?thesis by (simp add: strip_def)
qed

lemma filter_strip: "filter (\<lambda>c. \<not> is_space c) (strip s) = filter (\<lambda>c. \<not> is_space c) s"
  unfolding strip_def by (simp only: filter_rstrip filter_dropWhile_space)

lemma set_strip: "set (strip s) \<subseteq> set s"
proof -
  have "set (strip s) = set (dropWhile is_space (rev (dropWhile is_space s)))"
    by (simp add: strip_def)
  also have "\<dots> \<subseteq> set (rev (dropWhile is_space s))" by (auto dest: set_dropWhileD)
  also have "\<dots> = set (dropWhile is_space s)" by simp
  also have "\<dots> \<subseteq> set s" by (auto dest: set_dropWhileD)
  finally show ?thesis .
qed

lemma startswith_data_colon:
  assumes "startswith s ''data:''"
  shows "CHR '':'' \<in> set s"
proof -
  from assms have "take (length ''data:'') s = ''data:''" by (simp only: startswith_def)
  then have "CHR '':'' \<in> set (take (length ''data:'') s)" by (simp only: list.set) simp
  then show ?thesis by (rule in_set_takeD)
qed

text \<open>The cleaned text, without and with a data-URL prefix.\<close>

lemma cleaned_plain:
  assumes ws: "\<forall>c \<in> set ws. is_space c"
    and nc: "\<forall>c \<in> set payload. is_space c \<or> c \<noteq> CHR '':''"
  shows "filter (\<lambda>c. \<not> is_space c)
           (if startswith (strip (ws @ payload)) ''data:''
            then after_first_comma (strip (ws @ payload)) else strip (ws @ payload))
         = filter (\<lambda>c. \<not> is_space c) payload"
proof -
  have colon: "\<not> is_space CHR '':''" by (simp add: is_space_def)
  have "CHR '':'' \<notin> set payload" using nc colon by blast
  then have "CHR '':'' \<notin> set (strip (ws @ payload))"
    using set_strip [of "ws @ payload"] ws colon by auto
  then have "\<not> startswith (strip (ws @ payload)) ''data:''"
    using startswith_data_colon by blast
  then show ?thesis using ws by (simp add: filter_strip)
qed

lemma cleaned_prefixed:
  assumes ws: "\<forall>c \<in> set ws. is_space c"
    and nc: "CHR '','' \<notin> set mime"
    and ne: "\<exists>c \<in> set payload. \<not> is_space c"
  shows "filter (\<lambda>c. \<not> is_space c)
           (if startswith (strip (ws @ (''data:'' @ mime @ '','') @ payload)) ''data:''
            then after_first_comma (strip (ws @ (''data:'' @ mime @ '','') @ payload))
            else strip (ws @ (''data:'' @ mime @ '','') @ payload))
         = filter (\<lambda>c. \<not> is_space c) payload"
proof -
  let ?r = "rev (dropWhile is_space (rev payload))"
  have d: "\<not> is_space CHR ''d''" by (simp add: is_space_def)
  have "strip (ws @ (''data:'' @ mime @ '','') @ payload)
          = rev (dropWhile is_space (rev ((''data:'' @ mime @ '','') @ payload)))"
    using strip_leading [OF ws d, of "''ata:'' @ mime @ '','' @ payload"] by simp
  also have "\<dots> = (''data:'' @ mime @ '','') @ ?r"
    by (rule rstrip_append [OF ne])
  finally have st: "strip (ws @ (''data:'' @ mime @ '','') @ payload)
                      = ''data:'' @ mime @ CHR '','' # ?r" by simp
  have sw: "startswith (''data:'' @ mime @ CHR '','' # ?r) ''data:''"
    by (simp add: startswith_def)
  have "dropWhile (\<lambda>c. c \<noteq> CHR '','') ((''data:'' @ mime) @ CHR '','' # ?r)
          = dropWhile (\<lambda>c. c \<noteq> CHR '','') (''data:'' @ mime) @ CHR '','' # ?r"
    by (rule dropWhile_append3) simp
  moreover have "dropWhile (\<lambda>c. c \<noteq> CHR '','') (''data:'' @ mime) = []"
    using nc by auto
  ultimately have "dropWhile (\<lambda>c. c \<noteq> CHR '','') (''data:'' @ mime @ CHR '','' # ?r)
          = CHR '','' # ?r" by simp
  then have afc: "after_first_comma (''data:'' @ mime @ CHR '','' # ?r) = ?r"
    by (simp add: after_first_comma_def)
  show ?thesis unfolding st using sw afc by (simp only: if_True filter_rstrip)
qed

lemma decode_cleaned:
  assumes "bs \<noteq> []"
    and "e = b64encode bs \<or> e = takeWhile (\<lambda>c. c \<noteq> CHR ''='') (b64encode bs)"
  shows "e \<noteq> [] \<and>
         b64decode (if length e mod 4 \<noteq> 0 then e @ replicate (4 - length e mod 4) CHR ''=''
                    else e) = Inr bs"
  using assms(2)
proof
  assume e: "e = b64encode bs"
  then show ?thesis
    using b64encode_nonempty [OF assms(1)]
    by (simp add: b64encode_length b64decode_b64encode)
next
  assume e: "e = takeWhile (\<lambda>c. c \<noteq> CHR ''='') (b64encode bs)"
  from unpadded_repad [OF assms(1)] show ?thesis
    unfolding e Let_def by (simp only: b64decode_b64encode) simp
qed

text \<open>
  Claim C9, amended. For every non-empty byte string \<open>bs\<close>, \<open>decode_base64_bytes\<close>
  returns \<open>bs\<close> on the standard base64 encoding of \<open>bs\<close>, with its padding or with
  all of it removed, with white space inserted anywhere in it, after an optional
  data-URL prefix \<open>data:...,\<close> whose text before the comma holds no other comma, and
  after optional leading white space.
\<close>

theorem C9_decode_base64_round_trip:
  assumes bs: "bs \<noteq> []"
    and payload: "filter (\<lambda>c. \<not> is_space c) payload = b64encode bs \<or>
                  filter (\<lambda>c. \<not> is_space c) payload
                    = takeWhile (\<lambda>c. c \<noteq> CHR ''='') (b64encode bs)"
    and ws: "\<forall>c \<in> set ws. is_space c"
    and pre: "pre = [] \<or> (\<exists>mime. pre = ''data:'' @ mime @ '','' \<and> CHR '','' \<notin> set mime)"
  shows "decode_base64_bytes (ws @ pre @ payload) = Inr bs"
proof -
  let ?e = "filter (\<lambda>c. \<not> is_space c) payload"
  from decode_cleaned [OF bs payload] have ne: "?e \<noteq> []"
    and dec: "b64decode (if length ?e mod 4 \<noteq> 0
                         then ?e @ replicate (4 - length ?e mod 4) CHR ''='' else ?e) = Inr bs"
    by blast+
  have sub: "set ?e \<subseteq> set (b64encode bs)"
    using payload set_takeWhileD by fastforce
  have nocolon: "\<forall>c \<in> set payload. is_space c \<or> c \<noteq> CHR '':''"
  proof
    fix c assume c: "c \<in> set payload"
    show "is_space c \<or> c \<noteq> CHR '':''"
    proof (cases "is_space c")
      case False
      with c have "c \<in> set ?e" by simp
      with sub b64encode_no_space show ?thesis by blast
    qed simp
  qed
  have nonspace: "\<exists>c \<in> set payload. \<not> is_space c"
  proof -
    from ne obtain c where "c \<in> set ?e" by (cases ?e) auto
    then show ?thesis by auto
  qed
  have cleaned: "filter (\<lambda>c. \<not> is_space c)
           (if startswith (strip (ws @ pre @ payload)) ''data:''
            then after_first_comma (strip (ws @ pre @ payload))
            else strip (ws @ pre @ payload)) = ?e"
    using pre
  proof
    assume "pre = []"
    then have "ws @ pre @ payload = ws @ payload" by simp
    then show ?thesis using cleaned_plain [OF ws nocolon] by (simp only:)
  next
    assume "\<exists>mime. pre = ''data:'' @ mime @ '','' \<and> CHR '','' \<notin> set mime"
    then obtain mime where p: "pre = ''data:'' @ mime @ '',''" and m: "CHR '','' \<notin> set mime"
      by blast
    have "ws @ pre @ payload = ws @ (''data:'' @ mime @ '','') @ payload"
      unfolding p by simp
    then show ?thesis using cleaned_prefixed [OF ws m nonspace] by (simp only:)
  qed
  show ?thesis
    unfolding decode_base64_bytes_def Let_def cleaned using ne dec by simp
qed

text \<open>
  Claim C9 as stated fails on the empty byte string: its encoding is the empty string,
  and \<open>decode_base64_bytes\<close> raises \<open>ValueError('Empty base64 payload')\<close> on it, with
  or without a data-URL prefix.
\<close>

theorem C9_empty_bytes_counterexample:
  "decode_base64_bytes (b64encode []) = Inl (ValueError ''Empty base64 payload'') \<and>
   decode_base64_bytes (''data:image/png;base64,'' @ b64encode [])
     = Inl (ValueError ''Empty base64 payload'')"
  by (simp add: decode_base64_bytes_def strip_def startswith_def after_first_comma_def
      is_space_def Let_def)

theorem C9_decode_base64_round_trip_witness:
  "b64encode [104, 105] = ''aGk='' \<and>
   decode_base64_bytes ('' data:image/png;base64,aG k='') = Inr [104, 105] \<and>
   decode_base64_bytes (''aGk'') = Inr [104, 105]"
proof -
  have enc: "b64encode [104, 105] = ''aGk=''"
    by code_simp
  have sp: "\<forall>c \<in> set '' ''. is_space c" "\<forall>c \<in> set ''''. is_space c"
    by (simp_all add: is_space_def)
  have p1: "filter (\<lambda>c. \<not> is_space c) ''aG k='' = b64encode [104, 105] \<or>
            filter (\<lambda>c. \<not> is_space c) ''aG k=''
              = takeWhile (\<lambda>c. c \<noteq> CHR ''='') (b64encode [104, 105])"
    unfolding enc by (simp add: is_space_def)
  have p2: "filter (\<lambda>c. \<not> is_space c) ''aGk'' = b64encode [104, 105] \<or>
            filter (\<lambda>c. \<not> is_space c) ''aGk''
              = takeWhile (\<lambda>c. c \<noteq> CHR ''='') (b64encode [104, 105])"
    unfolding enc by (simp add: is_space_def)
  have m: "''data:image/png;base64,'' = [] \<or>
           (\<exists>mime. ''data:image/png;base64,'' = ''data:'' @ mime @ '','' \<and> CHR '','' \<notin> set mime)"
    by (rule disjI2, rule exI [of _ "''image/png;base64''"]) simp
  have n: "([] :: string) = [] \<or>
           (\<exists>mime. ([] :: string) = ''data:'' @ mime @ '','' \<and> CHR '','' \<notin> set mime)"
    by simp
  have a: "decode_base64_bytes ('' '' @ ''data:image/png;base64,'' @ ''aG k='') = Inr [104, 105]"
    by (rule C9_decode_base64_round_trip [OF _ p1 sp(1) m]) simp
  have b: "decode_base64_bytes ('''' @ [] @ ''aGk'') = Inr [104, 105]"
    by (rule C9_decode_base64_round_trip [OF _ p2 sp(2) n]) simp
  from enc a b show ?thesis by simp
qed

section \<open>Properties of the provider fallback and of the second pass\<close>

lemma contains_prefix: "contains (p @ r) p"
proof (cases "p @ r")
  case Nil
  then show ?thesis by simp
next
  case (Cons a l)
  have "take (length p) (p @ r) = p" by simp
  then have "take (length p) (a # l) = p" unfolding Cons .
  then show ?thesis unfolding Cons by simp
qed


text \<open>
  Claim C5. With \<open>processing_mode = "local"\<close>, when \<open>rmbg.generate_mask\<close> raises
  \<open>InferenceError\<close> or \<open>ModelLoadError\<close> with message \<open>m\<close>, \<open>_generate_with_fallback\<close>
  raises \<open>ValueError\<close> with the message
  \<open>Local processing failed: Local processing failed: m\<close>, and the counts of requests to
  the two Gemini transports are what they were before the call.
\<close>

theorem C5_forced_local_failure_is_terminal:
  assumes "rmbg_generate_mask out (local_calls st) image_bytes = Inl (InferenceError m) \<or>
           rmbg_generate_mask out (local_calls st) image_bytes = Inl (ModelLoadError m)"
  shows "\<exists>msg st'.
           generate_with_fallback api_key out st image_bytes max_edge ''local''
             = (Inl (ValueError msg), st') \<and>
           msg = ''Local processing failed: Local processing failed: '' @ m \<and>
           contains msg ''Local processing failed'' \<and>
           new_sdk_calls st' = new_sdk_calls st \<and>
           legacy_sdk_calls st' = legacy_sdk_calls st"
proof -
  have run: "run_local_segmentation out st image_bytes
          = (Inl (ValueError (''Local processing failed: '' @ m)),
             st\<lparr>local_calls := Suc (local_calls st)\<rparr>)"
    using assms by (auto simp: run_local_segmentation_def Let_def)
  have c: "contains (''Local processing failed'' @ '': Local processing failed: '' @ m)
             ''Local processing failed''"
    by (rule contains_prefix)
  have "generate_with_fallback api_key out st image_bytes max_edge ''local''
          = (Inl (ValueError (''Local processing failed: Local processing failed: '' @ m)),
             st\<lparr>local_calls := Suc (local_calls st)\<rparr>)"
    unfolding generate_with_fallback_def run by simp
  then show ?thesis using c by simp
qed



theorem C5_forced_local_failure_is_terminal_witness:
  "generate_with_fallback (Some ''key'')
     \<lparr>genai_new = (\<lambda>n b. Inr ''[]''), genai_legacy = (\<lambda>n b. Inr ''[]''),
      rmbg_generate_mask = (\<lambda>n b. Inl (InferenceError ''Mask generation failed: no session'')),
      prepare_image_for_model = (\<lambda>b e. Inr b), json_loads = (\<lambda>t. None)\<rparr>
     \<lparr>new_sdk_calls = 0, legacy_sdk_calls = 0, local_calls = 0, slept = []\<rparr>
     [1, 2, 3] 2048 ''local''
   = (Inl (ValueError ''Local processing failed: Local processing failed: Mask generation failed: no session''),
      \<lparr>new_sdk_calls = 0, legacy_sdk_calls = 0, local_calls = 1, slept = []\<rparr>)"
  using C5_forced_local_failure_is_terminal
    [of "\<lparr>genai_new = (\<lambda>n b. Inr ''[]''), genai_legacy = (\<lambda>n b. Inr ''[]''),
      rmbg_generate_mask = (\<lambda>n b. Inl (InferenceError ''Mask generation failed: no session'')),
      prepare_image_for_model = (\<lambda>b e. Inr b), json_loads = (\<lambda>t. None)\<rparr>"
     "\<lparr>new_sdk_calls = 0, legacy_sdk_calls = 0, local_calls = 0, slept = []\<rparr>"
     "[1, 2, 3]" "''Mask generation failed: no session''" "Some ''key''" 2048]
  by (simp add: generate_with_fallback_def run_local_segmentation_def Let_def)


text \<open>
  Claim C4 fails where the reprojection of the second-pass box raises. The first pass
  selected the candidate \<open>cup\<close> with mask \<open>aGk=\<close> and box \<open>[100, 100, 900, 900]\<close>; the
  second pass returns one candidate \<open>lid\<close> with mask \<open>QUJD\<close> and a box of three
  numbers. Scoring it fails and gives score 0, the selector returns it,
  \<open>roi_mask_payload\<close> and \<open>roi_label\<close> are assigned, \<open>_map_box_to_full\<close> raises, and the
  \<open>except\<close> clause restores the box alone: the run continues with the second-pass
  mask and label in the first-pass box.
\<close>

theorem C4_reprojection_failure_keeps_roi_mask:
  "roi_refine
     \<lparr>CANDIDATE_AREA_MIN = Unset, CANDIDATE_AREA_MAX = Unset, MASK_HOLE_RATIO = Unset\<rparr>
     (Some ''key'')
     \<lparr>genai_new = (\<lambda>n b. Inr ''[{...}]''), genai_legacy = (\<lambda>n b. Inr ''[]''),
      rmbg_generate_mask = (\<lambda>n b. Inl (InferenceError ''unused'')),
      prepare_image_for_model = (\<lambda>b e. Inr b),
      json_loads = (\<lambda>t. Some (DataList [ItemDict
                      \<lparr>d_label = Some ''lid'', d_box_2d = Some [100, 200, 300],
                        d_mask = Some (MaskStr ''QUJD''), d_confidence = Number (9 / 10),
                        d_score = Missing, d_probability = Missing\<rparr>]))\<rparr>
     (\<lambda>m. None)
     \<lparr>new_sdk_calls = 1, legacy_sdk_calls = 0, local_calls = 0, slept = []\<rparr>
     \<lparr>sc_item = \<lparr>c_label = ''cup'', c_box_2d = [100, 100, 900, 900],
                   c_mask = MaskStr ''aGk='', c_confidence = Number (9 / 10),
                   c_score = Missing, c_probability = Missing, c_local = None\<rparr>,
      sc_score = 1, sc_metrics = zero_metrics\<rparr>
     \<lparr>img_width = 100, img_height = 100, mean_gradient = (\<lambda>b. 0)\<rparr>
     [1, 2, 3] (0, 0, 100, 100) (100, 100) ''auto'' 1536
   = ((MaskStr ''QUJD'', ''lid'', [100, 100, 900, 900]),
      \<lparr>new_sdk_calls = 2, legacy_sdk_calls = 0, local_calls = 0, slept = []\<rparr>)"
proof -
  let ?out = "\<lparr>genai_new = (\<lambda>n b. Inr ''[{...}]''), genai_legacy = (\<lambda>n b. Inr ''[]''),
      rmbg_generate_mask = (\<lambda>n b. Inl (InferenceError ''unused'')),
      prepare_image_for_model = (\<lambda>b e. Inr b),
      json_loads = (\<lambda>t. Some (DataList [ItemDict
                      \<lparr>d_label = Some ''lid'', d_box_2d = Some [100, 200, 300],
                        d_mask = Some (MaskStr ''QUJD''), d_confidence = Number (9 / 10),
                        d_score = Missing, d_probability = Missing\<rparr>]))\<rparr>"
  let ?st = "\<lparr>new_sdk_calls = 1, legacy_sdk_calls = 0, local_calls = 0, slept = []\<rparr>"
  let ?c = "\<lparr>c_label = ''lid'', c_box_2d = [100, 200, 300], c_mask = MaskStr ''QUJD'',
             c_confidence = Number (9 / 10), c_score = Missing, c_probability = Missing,
             c_local = None\<rparr>"
  have upt: "[0..<MAX_RETRIES] = [0, 1]" by (simp add: MAX_RETRIES_def upt_rec)
  have gen: "generate_candidates_with_retry (Some ''key'') ?out ?st [1, 2, 3] 1536
               = (Inr [?c], \<lparr>new_sdk_calls = 2, legacy_sdk_calls = 0, local_calls = 0,
                               slept = []\<rparr>)"
    by (simp add: generate_candidates_with_retry_def generate_candidates_def
        generate_with_retry_def upt generate_with_new_sdk_def extract_json_def
        to_candidate_def List.map_filter_def)
  have sel: "select_candidate
       \<lparr>CANDIDATE_AREA_MIN = Unset, CANDIDATE_AREA_MAX = Unset, MASK_HOLE_RATIO = Unset\<rparr>
       (\<lambda>m. None) [?c] \<lparr>img_width = 100, img_height = 100, mean_gradient = (\<lambda>b. 0)\<rparr>
       ''auto'' True None
     = Inr (\<lparr>sc_item = ?c, sc_score = 0, sc_metrics = zero_metrics\<rparr>,
            [\<lparr>sc_item = ?c, sc_score = 0, sc_metrics = zero_metrics\<rparr>], 0)"
    by (simp add: select_candidate_def env_float_def score_or_zero_def score_candidate_def
        box_to_px_def py_max_index_def Let_def)
  have mp: "map_box_to_full [100, 200, 300] (0, 0, 100, 100) (100, 100)
              = Inl (ValueError ''not enough values to unpack'')"
    by (simp add: map_box_to_full_def)
  show ?thesis
    unfolding roi_refine_def Let_def gen prod.case sum.case sel
    by (simp add: mp)
qed

end
